theory Spec2Isabelle
  imports Complex_Main "HOL-Library.Word"
begin

text \<open>
  Terminal Mentor is a page that behaves like a terminal: the user submits a line, and
  the page answers with lessons, listings and quiz questions on security. This theory
  embeds the component \<open>HomePage\<close> of \<open>page.tsx\<close>: its state, the handler of a
  submitted line, the command dispatcher, the quiz and the status line. Each handler
  is a function from the state of the terminal to the state after the event.
\<close>

section \<open>JavaScript strings\<close>

text \<open>
  A JavaScript string is a sequence of UTF-16 code units: \<open>length\<close> counts code units,
  \<open>slice(0, n)\<close> keeps the first \<open>n\<close> of them and \<open>===\<close> compares the sequences.
  The ASCII part of a literal of the source is written \<open>ascii ''...''\<close>; every other
  code unit of a literal is written out.
\<close>

type_synonym codeUnit = "16 word"

type_synonym jstring = "codeUnit list"

definition ascii :: "string \<Rightarrow> jstring" where
  "ascii s = map (\<lambda>c. of_nat (of_char c)) s"

text \<open>
  \<open>String.prototype.trim\<close> removes the code units of the classes WhiteSpace and
  LineTerminator of ECMAScript from both ends.
\<close>

definition isWhiteSpace :: "codeUnit \<Rightarrow> bool" where
  "isWhiteSpace c \<longleftrightarrow>
     (0x9 \<le> c \<and> c \<le> 0xD) \<or> c = 0x20 \<or> c = 0xA0 \<or> c = 0x1680 \<or>
     (0x2000 \<le> c \<and> c \<le> 0x200A) \<or> c = 0x2028 \<or> c = 0x2029 \<or> c = 0x202F \<or>
     c = 0x205F \<or> c = 0x3000 \<or> c = 0xFEFF"

definition trim :: "jstring \<Rightarrow> jstring" where
  "trim s = rev (dropWhile isWhiteSpace (rev (dropWhile isWhiteSpace s)))"

text \<open>\<open>s.split(sep)\<close> for a separator of one code unit, and \<open>parts.join(sep)\<close>.\<close>

fun split :: "codeUnit \<Rightarrow> jstring \<Rightarrow> jstring list" where
  "split sep [] = [[]]"
| "split sep (c # cs) =
     (if c = sep then [] # split sep cs
      else (case split sep cs of [] \<Rightarrow> [[c]] | p # ps \<Rightarrow> (c # p) # ps))"

fun join :: "jstring \<Rightarrow> jstring list \<Rightarrow> jstring" where
  "join sep [] = []"
| "join sep [p] = p"
| "join sep (p # q # ps) = p @ sep @ join sep (q # ps)"

definition padEnd :: "nat \<Rightarrow> codeUnit \<Rightarrow> jstring \<Rightarrow> jstring" where
  "padEnd n fill s = s @ replicate (n - length s) fill"

text \<open>
  The case mappings \<open>toLowerCase\<close> and \<open>toUpperCase\<close> are those of the Unicode
  tables of the JavaScript engine. They are parameters of the model: every theorem
  below holds for every pair of mappings. \<open>asciiRuntime\<close> maps the letters of ASCII
  and leaves every other code unit alone; it agrees with the engine on ASCII strings.
\<close>

record runtime =
  toLowerCase :: "jstring \<Rightarrow> jstring"
  toUpperCase :: "jstring \<Rightarrow> jstring"

definition asciiLower :: "codeUnit \<Rightarrow> codeUnit" where
  "asciiLower c = (if 0x41 \<le> c \<and> c \<le> 0x5A then c + 0x20 else c)"

definition asciiUpper :: "codeUnit \<Rightarrow> codeUnit" where
  "asciiUpper c = (if 0x61 \<le> c \<and> c \<le> 0x7A then c - 0x20 else c)"

definition asciiRuntime :: runtime where
  "asciiRuntime = \<lparr>toLowerCase = map asciiLower, toUpperCase = map asciiUpper\<rparr>"

section \<open>JavaScript numbers\<close>

text \<open>
  The counters of the session are numbers that hold naturals; they are modelled as
  \<open>nat\<close>, which is exact below \<open>2^53\<close>. A template literal renders such a number
  in decimal.
\<close>

fun numberToString :: "nat \<Rightarrow> jstring" where
  "numberToString n =
     (if n < 10 then [of_nat (48 + n)]
      else numberToString (n div 10) @ [of_nat (48 + n mod 10)])"

declare numberToString.simps [simp del]

text \<open>
  Division and multiplication are those of IEEE 754 binary64 with rounding to nearest,
  ties to even. A non-negative finite double is \<open>Double m e\<close>, of value \<open>m * 2^e\<close>.
  \<open>toDouble n d\<close> is the double nearest to the fraction \<open>n / d\<close> (for \<open>0 < d\<close> and a
  quotient in the range of the normal numbers): the quotient is scaled into the
  interval from \<open>2^52\<close> to \<open>2^53\<close> and rounded to an integer there. That the result
  is the nearest value with a significand of 53 bits, a tie going to the even one, is
  \<open>toDouble_nearest\<close> below.
\<close>

datatype double = Double nat int

fun valueOf :: "double \<Rightarrow> rat" where
  "valueOf (Double m e) = of_nat m * 2 powi e"

fun bitLength :: "nat \<Rightarrow> nat" where
  "bitLength n = (if n = 0 then 0 else Suc (bitLength (n div 2)))"

declare bitLength.simps [simp del]

definition scaleFraction :: "nat \<Rightarrow> nat \<Rightarrow> int \<Rightarrow> nat \<times> nat" where
  "scaleFraction n d k = (if 0 \<le> k then (n * 2 ^ nat k, d) else (n, d * 2 ^ nat (- k)))"

definition roundTiesToEven :: "nat \<Rightarrow> nat \<Rightarrow> nat" where
  "roundTiesToEven n d =
     (let q = n div d; r = n mod d
      in if 2 * r < d then q else if d < 2 * r then q + 1 else if even q then q else q + 1)"

definition binade :: "nat \<Rightarrow> nat \<Rightarrow> int" where
  "binade n d =
     (let e = int (bitLength n) - int (bitLength d); (n', d') = scaleFraction n d (- e)
      in if d' \<le> n' then e else e - 1)"

definition toDouble :: "nat \<Rightarrow> nat \<Rightarrow> double" where
  "toDouble n d =
     (if n = 0 then Double 0 0
      else let k = 52 - binade n d; (n', d') = scaleFraction n d k
           in Double (roundTiesToEven n' d') (- k))"

definition js_divide :: "nat \<Rightarrow> nat \<Rightarrow> double" where
  "js_divide a b = toDouble a b"

definition js_times :: "double \<Rightarrow> nat \<Rightarrow> double" where
  "js_times x n = (case x of Double m e \<Rightarrow> (let (p, q) = scaleFraction (m * n) 1 e in toDouble p q))"

text \<open>\<open>Math.round\<close>: the nearest integer, a tie going up.\<close>

definition Math_round :: "double \<Rightarrow> nat" where
  "Math_round x = (case x of Double m e \<Rightarrow> (let (p, q) = scaleFraction m 1 e in (2 * p + q) div (2 * q)))"

text \<open>\<open>Math.ceil(n / 2)\<close> for a length \<open>n\<close>; the division is exact in binary64.\<close>

definition Math_ceil_half :: "nat \<Rightarrow> nat" where
  "Math_ceil_half n = nat \<lceil>(of_nat n :: rat) / 2\<rceil>"

section \<open>The content store\<close>

text \<open>
  The module \<open>@/data/knowledge\<close> holds the catalogue and its query functions. The
  terminal only reads it, so the model takes it as a parameter: the record
  \<open>knowledge\<close> has one field for each imported name, with the types the terminal uses
  them at. A lookup that finds nothing returns \<open>None\<close>.
\<close>

record quizQuestion =
  prompt :: jstring
  answer :: jstring
  explanation :: jstring
  choices :: "jstring list option"

record resource =
  resource_title :: jstring
  url :: jstring
  description :: jstring

record lab =
  lab_title :: jstring
  difficulty :: jstring
  time :: jstring
  goal :: jstring
  steps :: "jstring list"
  checklist :: "jstring list"

record topic =
  topic_id :: jstring
  title :: jstring
  summary :: jstring
  fundamentals :: "jstring list"
  advanced :: "jstring list"
  quickWins :: "jstring list"
  warningSigns :: "jstring list"
  studyPath :: "jstring list"
  resources :: "resource list"
  labs :: "lab list"
  quiz :: "quizQuestion list"

record glossaryEntry =
  entry_term :: jstring
  entry_definition :: jstring
  entry_context :: jstring

record knowledge =
  topics :: "topic list"
  findTopicByAlias :: "jstring \<Rightarrow> topic option"
  searchTopics :: "jstring \<Rightarrow> topic list"
  matchQuestionToTopic :: "jstring \<Rightarrow> topic option"
  getAllQuizQuestions :: "quizQuestion list"
  glossary :: "glossaryEntry list"
  lookupGlossary :: "jstring \<Rightarrow> glossaryEntry option"
  studyRoadmap :: "jstring list"
  dailySuggestions :: "jstring list"
  motivationalTips :: "jstring list"

section \<open>The state of the terminal\<close>

datatype historyRole = System | User | Assistant

record historyEntry =
  entry_id :: jstring
  role :: historyRole
  content :: "jstring list"

text \<open>\<open>PendingState\<close> is \<open>null\<close> or a quiz: an option.\<close>

record pendingQuiz =
  question :: quizQuestion
  attempts :: nat
  revealedHint :: bool

record sessionStats =
  answered :: nat
  correct :: nat
  streak :: nat

record terminal =
  history :: "historyEntry list"
  inputValue :: jstring
  pendingState :: "pendingQuiz option"
  sessionStats :: sessionStats
  commandHistory :: "jstring list"
  historyIndexRef :: "nat option"

definition initialHistory :: "historyEntry list" where
  "initialHistory =
     [\<lparr>entry_id = ascii ''boot-message'', role = System,
       content =
         [ascii ''Inicializando Terminal Mentor v1.0 ...'',
          [0xD83D, 0xDEE1, 0xFE0F] @
            ascii '' Asistente interactivo para aprender y practicar ciberseguridad.'',
          ascii ''Escribe `help` para ver comandos disponibles o `topics` para explorar rutas de estudio.'']\<rparr>]"

definition MAX_HISTORY_COMMANDS :: nat where
  "MAX_HISTORY_COMMANDS = 30"

definition initialTerminal :: terminal where
  "initialTerminal =
     \<lparr>history = initialHistory, inputValue = [], pendingState = None,
      sessionStats = \<lparr>answered = 0, correct = 0, streak = 0\<rparr>,
      commandHistory = [], historyIndexRef = None\<rparr>"

text \<open>
  What an event takes from outside the program: the identifiers that \<open>makeId\<close> builds
  from the clock and \<open>Math.random\<close> for the entry of the user and for the entry of the
  assistant, and the draw behind \<open>Math.floor(Math.random() * n)\<close>, which is some index
  below \<open>n\<close>.
\<close>

record chance =
  userId :: jstring
  replyId :: jstring
  draw :: nat

definition randomIndex :: "chance \<Rightarrow> nat \<Rightarrow> nat" where
  "randomIndex ch n = draw ch mod n"

definition normalizeInput :: "jstring \<Rightarrow> jstring" where
  "normalizeInput v = trim v"

section \<open>Writing to the transcript\<close>

text \<open>
  The handlers of one event read the state of the last render and queue their updates;
  React applies the queue in order. No handler reads a variable after it has queued an
  update of it, so the model passes the state along and applies each update at once.
\<close>

definition addEntry :: "historyRole \<Rightarrow> jstring list \<Rightarrow> jstring \<Rightarrow> terminal \<Rightarrow> terminal" where
  "addEntry r lines newId s =
     s\<lparr>history := history s @ [\<lparr>entry_id = newId, role = r, content = lines\<rparr>]\<rparr>"

definition showAssistant :: "jstring list \<Rightarrow> jstring \<Rightarrow> terminal \<Rightarrow> terminal" where
  "showAssistant lines newId s = addEntry Assistant lines newId s"

definition resetTerminal :: "jstring \<Rightarrow> terminal \<Rightarrow> terminal" where
  "resetTerminal newId s =
     showAssistant [ascii ''Pantalla limpia. Continuemos.''] newId
       (s\<lparr>history := initialHistory, pendingState := None\<rparr>)"

section \<open>The status line\<close>

definition accuracyOf :: "sessionStats \<Rightarrow> nat" where
  "accuracyOf st =
     (if answered st = 0 then 0
      else Math_round (js_times (js_divide (correct st) (answered st)) 100))"

definition buildSessionStatus :: "sessionStats \<Rightarrow> jstring" where
  "buildSessionStatus st =
     (let accuracy = accuracyOf st
      in [0xD83D, 0xDCCA] @ ascii '' Sesi'' @ [0xF3] @ ascii ''n | Resueltas: '' @
         numberToString (answered st) @ ascii '' | Correctas: '' @
         numberToString (correct st) @ ascii '' | Precisi'' @ [0xF3] @ ascii ''n: '' @
         numberToString accuracy @ ascii ''% | Racha: '' @ numberToString (streak st))"

section \<open>The quiz\<close>

definition hintText :: "quizQuestion \<Rightarrow> jstring" where
  "hintText q =
     ascii ''Pista: '' @ take (Math_ceil_half (length (answer q))) (answer q) @ ascii ''...''"

definition handleQuizAnswer :: "runtime \<Rightarrow> chance \<Rightarrow> jstring \<Rightarrow> terminal \<Rightarrow> terminal" where
  "handleQuizAnswer R ch v s =
     (case pendingState s of
        None \<Rightarrow> s
      | Some p \<Rightarrow>
          let normalized = toLowerCase R (trim v); q = question p; st = sessionStats s
          in if normalized = ascii ''hint'' \<or> normalized = ascii ''pista'' then
               if revealedHint p then
                 showAssistant
                   [[0x26A0, 0xFE0F] @ ascii '' Ya mostr'' @ [0xE9] @
                      ascii '' una pista para esta pregunta. Intenta una respuesta.'']
                   (replyId ch) s
               else
                 showAssistant [hintText q] (replyId ch)
                   (s\<lparr>pendingState := Some (p\<lparr>revealedHint := True\<rparr>)\<rparr>)
             else if normalized = ascii ''skip'' \<or> normalized = ascii ''omitir'' then
               let updatedStats = \<lparr>answered = answered st + 1, correct = correct st, streak = 0\<rparr>
               in (showAssistant
                     [ascii ''Pregunta omitida. Respuesta correcta: '' @ answer q,
                      ascii ''Explicaci'' @ [0xF3] @ ascii ''n: '' @ explanation q,
                      buildSessionStatus updatedStats]
                     (replyId ch) s)
                  \<lparr>pendingState := None, sessionStats := updatedStats\<rparr>
             else if normalized = toLowerCase R (answer q) then
               let updatedStats =
                     \<lparr>answered = answered st + 1, correct = correct st + 1, streak = streak st + 1\<rparr>
               in (showAssistant
                     [[0x2705] @ ascii '' '' @ [0xA1] @ ascii ''Correcto!'',
                      ascii ''Explicaci'' @ [0xF3] @ ascii ''n: '' @ explanation q,
                      buildSessionStatus updatedStats,
                      ascii ''Escribe `quiz` para otra pregunta o explora con `lesson <tema>`.'']
                     (replyId ch) s)
                  \<lparr>pendingState := None, sessionStats := updatedStats\<rparr>
             else
               let attempts' = attempts p + 1
               in if 2 \<le> attempts' then
                    let updatedStats =
                          \<lparr>answered = answered st + 1, correct = correct st, streak = 0\<rparr>
                    in (showAssistant
                          [[0x274C] @ ascii '' Respuesta incorrecta.'',
                           ascii ''La respuesta correcta es: '' @ answer q,
                           ascii ''Explicaci'' @ [0xF3] @ ascii ''n: '' @ explanation q,
                           buildSessionStatus updatedStats,
                           ascii ''Puedes escribir `quiz` para intentar otra o `lesson <tema>` para repasar.'']
                          (replyId ch) s)
                       \<lparr>pendingState := None, sessionStats := updatedStats\<rparr>
                  else
                    (showAssistant
                       [ascii ''Respuesta incorrecta. Puedes intentar nuevamente, pedir `hint` o escribir `skip`.'']
                       (replyId ch) s)
                    \<lparr>pendingState := Some (p\<lparr>attempts := attempts'\<rparr>)\<rparr>)"

section \<open>Formatting the catalogue\<close>

definition helpCards :: "(jstring \<times> jstring) list" where
  "helpCards =
     [(ascii ''help'', ascii ''Muestra los comandos disponibles.''),
      (ascii ''topics'', ascii ''Lista tem'' @ [0xE1] @ ascii ''ticas principales y resumen.''),
      (ascii ''lesson <tema>'', ascii ''Explica un tema en profundidad.''),
      (ascii ''resources [tema]'', ascii ''Recursos recomendados por tema.''),
      (ascii ''labs [tema]'', ascii ''Laboratorios pr'' @ [0xE1] @ ascii ''cticos guiados.''),
      (ascii ''quiz [tema]'', ascii ''Pregunta de repaso con opci'' @ [0xF3] @ ascii ''n a pista.''),
      (ascii ''glossary <t'' @ [0xE9] @ ascii ''rmino>'',
       ascii ''Definici'' @ [0xF3] @ ascii ''n r'' @ [0xE1] @ ascii ''pida de conceptos.''),
      (ascii ''question <tu duda>'', ascii ''Consulta libre con contexto.''),
      (ascii ''search <palabra>'', ascii ''Busca temas relacionados.''),
      (ascii ''roadmap'', ascii ''Ruta de aprendizaje sugerida.''),
      (ascii ''suggest'', ascii ''Actividad del d'' @ [0xED] @ ascii ''a para practicar.''),
      (ascii ''status'',
       ascii ''Estad'' @ [0xED] @ ascii ''sticas de sesi'' @ [0xF3] @ ascii ''n y motivaci'' @ [0xF3] @
         ascii ''n.''),
      (ascii ''clear'', ascii ''Limpia el historial de la terminal.'')]"

definition formatList :: "jstring \<Rightarrow> jstring list \<Rightarrow> jstring list" where
  "formatList t items =
     (ascii ''# '' @ t) #
     map (\<lambda>(index, item). ascii ''  '' @ numberToString (index + 1) @ ascii ''. '' @ item)
       (enumerate 0 items)"

definition formatBullets :: "jstring list \<Rightarrow> jstring list" where
  "formatBullets items = map (\<lambda>item. [0x2022] @ ascii '' '' @ item) items"

definition summarizeTopic :: "runtime \<Rightarrow> topic \<Rightarrow> jstring list" where
  "summarizeTopic R t =
     [ascii ''== '' @ toUpperCase R (title t) @ ascii '' =='', summary t, [],
      ascii ''Fundamentos clave:''] @
     formatBullets (fundamentals t) @
     [[], ascii ''Nivel intermedio/avanzado:''] @
     formatBullets (advanced t) @
     [[], ascii ''Quick wins:''] @
     formatBullets (quickWins t) @
     [[], ascii ''Alertas tempranas:''] @
     formatBullets (warningSigns t) @
     [[], ascii ''Ruta sugerida:''] @
     formatBullets (studyPath t)"

definition formatResources :: "knowledge \<Rightarrow> topic option \<Rightarrow> jstring list" where
  "formatResources K topic =
     (case topic of
        None \<Rightarrow>
          ([0xD83D, 0xDD17] @ ascii '' Recursos recomendados por tem'' @ [0xE1] @ ascii ''tica:'') #
          concat
            (map (\<lambda>item.
                    (ascii ''> '' @ title item) #
                    map (\<lambda>r. ascii ''  - '' @ resource_title r @ ascii '': '' @ url r)
                      (resources item))
               (topics K))
      | Some t \<Rightarrow>
          (ascii ''Recursos para '' @ title t @ ascii '':'') #
          map (\<lambda>r. ascii ''- '' @ resource_title r @ ascii '': '' @ url r @ ascii '' ('' @
                     description r @ ascii '')'')
            (resources t))"

definition formatLabs :: "knowledge \<Rightarrow> topic option \<Rightarrow> jstring list" where
  "formatLabs K topic =
     (case topic of
        None \<Rightarrow>
          [[0xD83E, 0xDDEA] @ ascii '' Laboratorios disponibles:''] @
          concat
            (map (\<lambda>item.
                    map (\<lambda>l. ascii ''['' @ title item @ ascii ''] '' @ lab_title l @ ascii '' ('' @
                               difficulty l @ ascii '' '' @ [0xB7] @ ascii '' '' @ time l @
                               ascii '') -> '' @ goal l)
                      (labs item))
               (topics K)) @
          [ascii ''Usa `labs <tema>` para ver pasos detallados.'']
      | Some t \<Rightarrow>
          (case labs t of
             [] \<Rightarrow>
               [ascii ''A'' @ [0xFA] @ ascii ''n no hay laboratorios documentados para '' @ title t @
                  ascii ''.'']
           | l # _ \<Rightarrow>
               [[0xD83E, 0xDDEA] @ ascii '' '' @ lab_title l @ ascii '' | Dificultad: '' @
                  difficulty l @ ascii '' | Duraci'' @ [0xF3] @ ascii ''n: '' @ time l,
                ascii ''Objetivo: '' @ goal l, [], ascii ''Pasos:''] @
               formatBullets (steps l) @
               [[], ascii ''Checklist de '' @ [0xE9] @ ascii ''xito:''] @
               formatBullets (checklist l)))"

definition pickQuizQuestion :: "knowledge \<Rightarrow> chance \<Rightarrow> jstring \<Rightarrow> quizQuestion option" where
  "pickQuizQuestion K ch topicAlias =
     (let fromTopic =
            (if topicAlias \<noteq> [] then
               (case findTopicByAlias K topicAlias of
                  None \<Rightarrow> None
                | Some matchingTopic \<Rightarrow>
                    if 0 < length (quiz matchingTopic)
                    then Some (quiz matchingTopic ! randomIndex ch (length (quiz matchingTopic)))
                    else None)
             else None)
      in case fromTopic of
           Some q \<Rightarrow> Some q
         | None \<Rightarrow>
             (let questions = getAllQuizQuestions K
              in if length questions = 0 then None
                 else Some (questions ! randomIndex ch (length questions))))"

text \<open>
  \<open>topics[0]\<close> of an empty catalogue is \<open>undefined\<close>, and reading its title throws.
\<close>

datatype error = TypeError

definition answerNaturalQuestion :: "knowledge \<Rightarrow> jstring \<Rightarrow> error + jstring list" where
  "answerNaturalQuestion K query =
     (case (case matchQuestionToTopic K query of
              Some t \<Rightarrow> Some t
            | None \<Rightarrow> (case topics K of [] \<Rightarrow> None | t # _ \<Rightarrow> Some t)) of
        None \<Rightarrow> Inl TypeError
      | Some t \<Rightarrow>
          Inr ([ascii ''Tema sugerido: '' @ title t, ascii ''Resumen: '' @ summary t, [],
                ascii ''Puntos clave:''] @
               formatBullets (take 3 (fundamentals t)) @
               [[], ascii ''Recomendaci'' @ [0xF3] @ ascii ''n:'',
                [0x2022] @ ascii '' Revisa la lecci'' @ [0xF3] @ ascii ''n con `lesson '' @
                  topic_id t @ ascii ''`.'',
                [0x2022] @ ascii '' Programa un laboratorio pr'' @ [0xE1] @
                  ascii ''ctico con `labs '' @ topic_id t @ ascii ''`.'']))"

text \<open>
  An element drawn from a list of strings for a template literal: the element at index
  0 of an empty list is \<open>undefined\<close>, which the literal renders as that word.
\<close>

definition pickLine :: "chance \<Rightarrow> jstring list \<Rightarrow> jstring" where
  "pickLine ch xs =
     (if xs = [] then ascii ''undefined'' else xs ! randomIndex ch (length xs))"

section \<open>The command dispatcher\<close>

text \<open>
  The \<open>switch\<close> of \<open>handleCommand\<close> on the command key, with the argument string. Every
  branch queues one entry of the assistant, but for a free question on an empty
  catalogue, where the exception leaves the handler before anything is shown.
\<close>

definition handleCommand_switch ::
  "knowledge \<Rightarrow> runtime \<Rightarrow> chance \<Rightarrow> jstring \<Rightarrow> jstring \<Rightarrow> terminal \<Rightarrow> terminal" where
  "handleCommand_switch K R ch commandKey argString s =
     (if commandKey = ascii ''help'' \<or> commandKey = ascii ''?'' then
        showAssistant
          (ascii ''Comandos disponibles:'' #
           map (\<lambda>(command, descr). padEnd 18 0x20 command @ ascii '' - '' @ descr) helpCards)
          (replyId ch) s
      else if commandKey = ascii ''topics'' then
        showAssistant
          ([ascii ''Temas activos:''] @
           map (\<lambda>t. padEnd 12 0x20 (topic_id t) @ ascii '' | '' @ title t @ ascii '' -> '' @ summary t)
             (topics K) @
           [ascii ''Explora detalles con `lesson <tema>`.''])
          (replyId ch) s
      else if commandKey = ascii ''lesson'' \<or> commandKey = ascii ''tema'' \<or>
              commandKey = ascii ''topic'' then
        if argString = [] then
          showAssistant [ascii ''Debes indicar un tema. Ejemplo: `lesson redes`''] (replyId ch) s
        else
          (case findTopicByAlias K argString of
             None \<Rightarrow>
               (let related = searchTopics K argString
                in if length related = 0 then
                     showAssistant
                       [ascii ''No encontr'' @ [0xE9] @ ascii '' un tema llamado '' @ [0x22] @
                          argString @ [0x22] @ ascii ''. Usa `topics` para ver opciones.'']
                       (replyId ch) s
                   else
                     showAssistant
                       ((ascii ''No encontr'' @ [0xE9] @ ascii '' coincidencia exacta. '' @ [0xBF] @
                           ascii ''Quiz'' @ [0xE1] @ ascii ''s buscas alguno de estos?'') #
                        map (\<lambda>item. ascii ''- '' @ topic_id item @ ascii '': '' @ title item) related)
                       (replyId ch) s)
           | Some t \<Rightarrow> showAssistant (summarizeTopic R t) (replyId ch) s)
      else if commandKey = ascii ''resources'' \<or> commandKey = ascii ''recursos'' then
        (let topic = (if argString \<noteq> [] then findTopicByAlias K argString else None)
         in showAssistant (formatResources K topic) (replyId ch) s)
      else if commandKey = ascii ''labs'' \<or> commandKey = ascii ''lab'' then
        (let topic = (if argString \<noteq> [] then findTopicByAlias K argString else None)
         in showAssistant (formatLabs K topic) (replyId ch) s)
      else if commandKey = ascii ''quiz'' \<or> commandKey = ascii ''reto'' then
        (case pickQuizQuestion K ch argString of
           None \<Rightarrow> showAssistant [ascii ''No hay preguntas disponibles por ahora.''] (replyId ch) s
         | Some q \<Rightarrow>
             (showAssistant
                ([ascii ''Pregunta: '' @ prompt q] @
                 (case choices q of
                    None \<Rightarrow> []
                  | Some cs \<Rightarrow> [ascii ''Opciones: '' @ join (ascii '' | '') cs]) @
                 [ascii ''Responde, pide `hint` para una pista o escribe `skip` para saltar.''])
                (replyId ch) s)
             \<lparr>pendingState := Some \<lparr>question = q, attempts = 0, revealedHint = False\<rparr>\<rparr>)
      else if commandKey = ascii ''glossary'' \<or> commandKey = ascii ''glosario'' then
        if argString = [] then
          showAssistant
            (map (\<lambda>e. entry_term e @ ascii '': '' @ entry_definition e) (glossary K))
            (replyId ch) s
        else
          (case lookupGlossary K argString of
             None \<Rightarrow>
               showAssistant
                 [ascii ''No encontr'' @ [0xE9] @ ascii '' '' @ [0x22] @ argString @ [0x22] @
                    ascii ''. Usa `glossary` para listar conceptos.'']
                 (replyId ch) s
           | Some e \<Rightarrow>
               showAssistant
                 [entry_term e @ ascii '': '' @ entry_definition e,
                  ascii ''Contexto: '' @ entry_context e]
                 (replyId ch) s)
      else if commandKey = ascii ''search'' \<or> commandKey = ascii ''buscar'' then
        if argString = [] then
          showAssistant
            [ascii ''Incluye un t'' @ [0xE9] @ ascii ''rmino. Ejemplo: `search mitre`'']
            (replyId ch) s
        else
          (let results = searchTopics K argString
           in if length results = 0 then
                showAssistant
                  [ascii ''No hay coincidencias para '' @ [0x22] @ argString @ [0x22] @
                     ascii ''. Intenta con otro t'' @ [0xE9] @ ascii ''rmino.'']
                  (replyId ch) s
              else
                showAssistant
                  ((ascii ''Resultados ('' @ numberToString (length results) @ ascii ''):'') #
                   map (\<lambda>r. topic_id r @ ascii '' -> '' @ title r @ ascii '' | '' @ summary r) results)
                  (replyId ch) s)
      else if commandKey = ascii ''roadmap'' \<or> commandKey = ascii ''ruta'' then
        showAssistant (formatList (ascii ''Ruta sugerida de 6 semanas'') (studyRoadmap K))
          (replyId ch) s
      else if commandKey = ascii ''suggest'' \<or> commandKey = ascii ''actividad'' then
        (let suggestion = pickLine ch (dailySuggestions K)
         in showAssistant
              [ascii ''Actividad recomendada: '' @ suggestion,
               ascii ''Comparte conclusiones en tu bit'' @ [0xE1] @ ascii ''cora personal.'']
              (replyId ch) s)
      else if commandKey = ascii ''status'' then
        (let motivation = pickLine ch (motivationalTips K)
         in showAssistant
              [buildSessionStatus (sessionStats s), [0xD83D, 0xDCA1] @ ascii '' '' @ motivation]
              (replyId ch) s)
      else if commandKey = ascii ''question'' \<or> commandKey = ascii ''pregunta'' then
        if argString = [] then
          showAssistant
            [ascii ''Formula tu duda. Ejemplo: `question diferencia entre ids e ips`.'']
            (replyId ch) s
        else
          (case answerNaturalQuestion K argString of
             Inl e \<Rightarrow> s
           | Inr lines \<Rightarrow> showAssistant lines (replyId ch) s)
      else if commandKey = ascii ''clear'' \<or> commandKey = ascii ''cls'' then
        resetTerminal (replyId ch) s
      else
        showAssistant
          [ascii ''Comando desconocido: '' @ commandKey,
           ascii ''Escribe `help` para ver opciones disponibles.'']
          (replyId ch) s)"

text \<open>
  The head of \<open>handleCommand\<close>: the trimmed line is split at every space (U+0020); the
  first part, in lower case, is the command key, and the other parts, joined by spaces
  again and trimmed, are the argument string. No key and no dispatch for an empty line.
  (\<open>split\<close> never returns the empty list.)
\<close>

definition parseCommand :: "runtime \<Rightarrow> jstring \<Rightarrow> (jstring \<times> jstring) option" where
  "parseCommand R rawInput =
     (let trimmed = normalizeInput rawInput
      in if trimmed = [] then None
         else (case split 0x20 trimmed of
                 [] \<Rightarrow> None
               | command # argsParts \<Rightarrow>
                   Some (toLowerCase R command, trim (join (ascii '' '') argsParts))))"

definition handleCommand :: "knowledge \<Rightarrow> runtime \<Rightarrow> chance \<Rightarrow> jstring \<Rightarrow> terminal \<Rightarrow> terminal" where
  "handleCommand K R ch rawInput s =
     (case parseCommand R rawInput of
        None \<Rightarrow> s
      | Some (commandKey, argString) \<Rightarrow> handleCommand_switch K R ch commandKey argString s)"

section \<open>Submitting a line\<close>

definition handleSubmit :: "knowledge \<Rightarrow> runtime \<Rightarrow> chance \<Rightarrow> terminal \<Rightarrow> terminal" where
  "handleSubmit K R ch s =
     (let normalized = normalizeInput (inputValue s)
      in if normalized = [] then s
         else
           let s1 = addEntry User [normalized] (userId ch) s;
               s2 = s1\<lparr>commandHistory :=
                         take MAX_HISTORY_COMMANDS
                           (normalized # filter (\<lambda>item. item \<noteq> normalized) (commandHistory s1))\<rparr>;
               s3 = s2\<lparr>historyIndexRef := None, inputValue := []\<rparr>
           in if pendingState s \<noteq> None then handleQuizAnswer R ch normalized s3
              else handleCommand K R ch normalized s3)"

text \<open>Typing a line into the input field and submitting it; a session is a list of these.\<close>

definition submitLine :: "knowledge \<Rightarrow> runtime \<Rightarrow> jstring \<times> chance \<Rightarrow> terminal \<Rightarrow> terminal" where
  "submitLine K R ev s = handleSubmit K R (snd ev) (s\<lparr>inputValue := fst ev\<rparr>)"

fun run :: "knowledge \<Rightarrow> runtime \<Rightarrow> terminal \<Rightarrow> (jstring \<times> chance) list \<Rightarrow> terminal" where
  "run K R s [] = s"
| "run K R s (ev # evs) = run K R (submitLine K R ev s) evs"

section \<open>What the specification says of the parser, the accuracy and the recall buffer\<close>

text \<open>
  The parser in the words of the specification: the trimmed line is split at its first
  run of whitespace into the command token, lower-cased, and the rest, trimmed.
\<close>

definition parseBySpec :: "runtime \<Rightarrow> jstring \<Rightarrow> (jstring \<times> jstring) option" where
  "parseBySpec R rawInput =
     (let trimmed = trim rawInput
      in if trimmed = [] then None
         else Some (toLowerCase R (takeWhile (\<lambda>c. \<not> isWhiteSpace c) trimmed),
                    trim (dropWhile (\<lambda>c. \<not> isWhiteSpace c) trimmed)))"

text \<open>
  The accuracy in the words of the specification: 0 when nothing is answered, and
  otherwise the exact percentage \<open>correct / answered * 100\<close> rounded to the nearest
  integer, a tie going up as \<open>Math.round\<close> has it. The exact percentage is halfway
  between two integers when \<open>200 * correct\<close> is an odd multiple of \<open>answered\<close>.
\<close>

definition accuracyBySpec :: "sessionStats \<Rightarrow> nat" where
  "accuracyBySpec st =
     (if answered st = 0 then 0
      else nat \<lfloor>(of_nat (correct st) :: rat) / of_nat (answered st) * 100 + 1 / 2\<rfloor>)"

definition halfway :: "sessionStats \<Rightarrow> bool" where
  "halfway st \<longleftrightarrow> (200 * correct st) mod (2 * answered st) = answered st"

text \<open>The lines of a session that are accepted: trimmed, and not empty then.\<close>

definition acceptedLines :: "(jstring \<times> chance) list \<Rightarrow> jstring list" where
  "acceptedLines evs = filter (\<lambda>l. l \<noteq> []) (map (\<lambda>ev. normalizeInput (fst ev)) evs)"

section \<open>A small catalogue and session for concrete runs\<close>

definition sampleQuestion :: quizQuestion where
  "sampleQuestion =
     \<lparr>prompt = ascii ''Transport of HTTPS?'', answer = ascii ''TCP'',
      explanation = ascii ''TLS runs over TCP.'', choices = Some [ascii ''TCP'', ascii ''UDP'']\<rparr>"

definition sampleTopic :: topic where
  "sampleTopic =
     \<lparr>topic_id = ascii ''redes'', title = ascii ''Redes'', summary = ascii ''Networks'',
      fundamentals = [ascii ''OSI''], advanced = [], quickWins = [], warningSigns = [],
      studyPath = [],
      resources =
        [\<lparr>resource_title = ascii ''RFC 9293'', url = ascii ''https://www.rfc-editor.org'',
          description = ascii ''TCP''\<rparr>],
      labs = [], quiz = [sampleQuestion]\<rparr>"

definition sampleKnowledge :: knowledge where
  "sampleKnowledge =
     \<lparr>topics = [sampleTopic],
      findTopicByAlias = (\<lambda>a. if a = ascii ''redes'' then Some sampleTopic else None),
      searchTopics = (\<lambda>a. []),
      matchQuestionToTopic = (\<lambda>a. None),
      getAllQuizQuestions = [sampleQuestion],
      glossary = [], lookupGlossary = (\<lambda>a. None),
      studyRoadmap = [], dailySuggestions = [], motivationalTips = [ascii ''Sigue'']\<rparr>"

definition sampleChance :: chance where
  "sampleChance = \<lparr>userId = ascii ''u'', replyId = ascii ''a'', draw = 0\<rparr>"

definition samplePending :: pendingQuiz where
  "samplePending = \<lparr>question = sampleQuestion, attempts = 0, revealedHint = False\<rparr>"

definition quizTerminal :: terminal where
  "quizTerminal = initialTerminal\<lparr>pendingState := Some samplePending\<rparr>"

section \<open>Basic facts\<close>

subsection \<open>Projections of the state after an entry is queued\<close>

lemma history_showAssistant [simp]:
  "history (showAssistant ls i s) = history s @ [\<lparr>entry_id = i, role = Assistant, content = ls\<rparr>]"
  by (simp add: showAssistant_def addEntry_def)

lemma showAssistant_fields [simp]:
  "pendingState (showAssistant ls i s) = pendingState s"
  "sessionStats (showAssistant ls i s) = sessionStats s"
  "commandHistory (showAssistant ls i s) = commandHistory s"
  "inputValue (showAssistant ls i s) = inputValue s"
  "historyIndexRef (showAssistant ls i s) = historyIndexRef s"
  by (simp_all add: showAssistant_def addEntry_def)

lemma addEntry_fields [simp]:
  "history (addEntry r ls i s) = history s @ [\<lparr>entry_id = i, role = r, content = ls\<rparr>]"
  "pendingState (addEntry r ls i s) = pendingState s"
  "sessionStats (addEntry r ls i s) = sessionStats s"
  "commandHistory (addEntry r ls i s) = commandHistory s"
  by (simp_all add: addEntry_def)

lemma resetTerminal_fields [simp]:
  "history (resetTerminal i s) =
     initialHistory @
     [\<lparr>entry_id = i, role = Assistant, content = [ascii ''Pantalla limpia. Continuemos.'']\<rparr>]"
  "pendingState (resetTerminal i s) = None"
  "sessionStats (resetTerminal i s) = sessionStats s"
  "commandHistory (resetTerminal i s) = commandHistory s"
  by (simp_all add: resetTerminal_def)

subsection \<open>Strings\<close>

lemmas string_eval = ascii_def trim_def isWhiteSpace_def asciiRuntime_def asciiLower_def

lemma Math_ceil_half_eq: "Math_ceil_half n = (n + 1) div 2"
proof -
  have "\<lceil>(of_nat n :: rat) / 2\<rceil> = \<lceil>(of_int (int n) :: rat) / of_int 2\<rceil>"
    by simp
  also have "\<dots> = - (- int n div 2)"
    by (rule ceiling_divide_eq_div)
  also have "\<dots> = (int n + 1) div 2"
    by presburger
  finally have "nat \<lceil>(of_nat n :: rat) / 2\<rceil> = nat ((int n + 1) div 2)"
    by simp
  also have "\<dots> = (n + 1) div 2"
    by (simp add: nat_div_distrib nat_add_distrib)
  finally show ?thesis
    by (simp add: Math_ceil_half_def)
qed

lemma ceil_half_nat: "nat \<lceil>(of_nat n :: rat) / 2\<rceil> = (n + 1) div 2"
  using Math_ceil_half_eq [of n] by (simp add: Math_ceil_half_def)

lemma numberToString_0: "numberToString 0 = ascii ''0''"
  by (simp add: numberToString.simps ascii_def)

lemma split_not_Nil: "split sep s \<noteq> []"
  by (induction s) (auto split: list.splits)

lemma hd_split: "hd (split sep s) = takeWhile (\<lambda>c. c \<noteq> sep) s"
  by (induction s) (auto split: list.splits simp: split_not_Nil)

lemma join_split: "join [sep] (split sep s) = s"
proof (induction s)
  case Nil
  show ?case by simp
next
  case (Cons c cs)
  obtain p ps where ps: "split sep cs = p # ps"
    using split_not_Nil [of sep cs] by (cases "split sep cs") auto
  show ?case
  proof (cases "c = sep")
    case True
    with Cons ps show ?thesis by simp
  next
    case False
    with Cons ps show ?thesis by (cases ps) auto
  qed
qed

lemma join_tl_split: "join [sep] (tl (split sep s)) = tl (dropWhile (\<lambda>c. c \<noteq> sep) s)"
proof (induction s)
  case Nil
  show ?case by simp
next
  case (Cons c cs)
  obtain p ps where ps: "split sep cs = p # ps"
    using split_not_Nil [of sep cs] by (cases "split sep cs") auto
  show ?case
  proof (cases "c = sep")
    case True
    then show ?thesis using join_split [of sep cs] by simp
  next
    case False
    with Cons ps show ?thesis by simp
  qed
qed

lemma trim_leading: "isWhiteSpace c \<Longrightarrow> trim (c # cs) = trim cs"
  by (simp add: trim_def)

lemma trim_tl_dropWhile_space:
  "trim (tl (dropWhile (\<lambda>c. c \<noteq> 0x20) t)) = trim (dropWhile (\<lambda>c. c \<noteq> 0x20) t)"
proof (cases "dropWhile (\<lambda>c. c \<noteq> 0x20) t")
  case Nil
  then show ?thesis by (simp only: list.sel)
next
  case (Cons c cs)
  then have "c = 0x20"
    using hd_dropWhile [of "\<lambda>c. c \<noteq> 0x20" t] by auto
  then have "isWhiteSpace c"
    by (simp add: isWhiteSpace_def)
  with Cons show ?thesis
    by (simp add: trim_leading)
qed

lemma dropEnd_prefix: "\<exists>w. u = rev (dropWhile P (rev u)) @ w"
proof -
  have "rev u = takeWhile P (rev u) @ dropWhile P (rev u)" by simp
  then have "rev (rev u) = rev (dropWhile P (rev u)) @ rev (takeWhile P (rev u))"
    by (metis rev_append)
  then show ?thesis by auto
qed

lemma trim_idem: "trim (trim s) = trim s"
proof -
  define u where "u = dropWhile isWhiteSpace s"
  define v where "v = rev (dropWhile isWhiteSpace (rev u))"
  have tv: "trim s = v" by (simp add: trim_def u_def v_def)
  have u: "u = [] \<or> \<not> isWhiteSpace (hd u)"
    unfolding u_def using hd_dropWhile [of isWhiteSpace s] by blast
  obtain w where w: "u = v @ w"
    using dropEnd_prefix [of u isWhiteSpace] v_def by blast
  have "v = [] \<or> \<not> isWhiteSpace (hd v)"
  proof (cases "v = []")
    case True then show ?thesis by simp
  next
    case False
    with w have "hd u = hd v" "u \<noteq> []" by auto
    with u show ?thesis by simp
  qed
  then have d: "dropWhile isWhiteSpace v = v"
    by (cases v) auto
  have "rev (dropWhile isWhiteSpace (rev v)) = v"
    by (simp add: v_def)
  with d have "trim v = v" by (simp add: trim_def)
  with tv show ?thesis by simp
qed

subsection \<open>Numbers\<close>

text \<open>
  The accuracy of some statistics, evaluated. In binary64 the product
  \<open>29 / 200 * 100\<close> is \<open>14.499999999999998\<close>, so the accuracy of 29 out of 200 is 14,
  and that of 23 out of 40 is 57; one out of eight is a tie, which goes up.
\<close>

lemma bitLength_numeral:
  "bitLength 0 = 0" "bitLength (numeral k) = Suc (bitLength (numeral k div 2))"
  by (simp_all add: bitLength.simps)

lemmas float_eval = accuracyOf_def js_times_def js_divide_def toDouble_def binade_def
  scaleFraction_def roundTiesToEven_def Math_round_def Let_def bitLength_numeral

lemma accuracy_samples:
  "accuracyOf \<lparr>answered = 3, correct = 1, streak = 0\<rparr> = 33"
  "accuracyOf \<lparr>answered = 3, correct = 2, streak = 0\<rparr> = 67"
  "accuracyOf \<lparr>answered = 8, correct = 1, streak = 0\<rparr> = 13"
  "accuracyOf \<lparr>answered = 7, correct = 7, streak = 7\<rparr> = 100"
  "accuracyOf \<lparr>answered = 200, correct = 29, streak = 0\<rparr> = 14"
  "accuracyOf \<lparr>answered = 40, correct = 23, streak = 0\<rparr> = 57"
  by (simp_all add: float_eval)

text \<open>
  The model of binary64 rounds correctly: \<open>toDouble\<close> returns a significand between
  \<open>2^52\<close> and \<open>2^53\<close> whose value is within half a unit in the last place of the
  fraction, and an even significand on a tie. Division and multiplication are this
  rounding of the exact quotient and product, and \<open>Math_round\<close> is the floor of the value
  plus one half.
\<close>

lemma bitLength_upper: "n < 2 ^ bitLength n"
proof (induction n rule: bitLength.induct)
  case (1 n)
  show ?case
  proof (cases "n = 0")
    case True
    then show ?thesis by (simp add: bitLength.simps)
  next
    case False
    with 1 have "n div 2 < 2 ^ bitLength (n div 2)" by simp
    then have "n < 2 * 2 ^ bitLength (n div 2)" by linarith
    with False show ?thesis by (simp add: bitLength.simps [of n])
  qed
qed

lemma bitLength_lower: "0 < n \<Longrightarrow> 2 ^ (bitLength n - 1) \<le> n"
proof (induction n rule: bitLength.induct)
  case (1 n)
  then have n: "n \<noteq> 0" by simp
  show ?case
  proof (cases "n div 2 = 0")
    case True
    with n show ?thesis by (simp add: bitLength.simps [of n] bitLength.simps [of 0])
  next
    case False
    with 1 n have ih: "2 ^ (bitLength (n div 2) - 1) \<le> n div 2" by simp
    from False have "0 < bitLength (n div 2)" by (simp add: bitLength.simps [of "n div 2"])
    then have "(2::nat) ^ bitLength (n div 2) = 2 * 2 ^ (bitLength (n div 2) - 1)"
      by (cases "bitLength (n div 2)") simp_all
    with ih have "2 ^ bitLength (n div 2) \<le> n" by linarith
    with n show ?thesis by (simp add: bitLength.simps [of n])
  qed
qed

lemma scaleFraction_value:
  assumes "scaleFraction n d k = (p, q)" and "0 < d"
  shows "0 < q \<and> (of_nat p :: rat) / of_nat q = of_nat n / of_nat d * 2 powi k"
proof (cases "0 \<le> k")
  case True
  with assms have "p = n * 2 ^ nat k" "q = d" by (simp_all add: scaleFraction_def)
  with True assms(2) show ?thesis by (simp add: power_int_def)
next
  case False
  with assms have "p = n" "q = d * 2 ^ nat (- k)" by (simp_all add: scaleFraction_def)
  with False assms(2) show ?thesis by (simp add: power_int_def field_simps)
qed

lemma roundTiesToEven_nearest:
  assumes "0 < d"
  shows "\<bar>(of_nat (roundTiesToEven n d) :: rat) - of_nat n / of_nat d\<bar> \<le> 1 / 2 \<and>
         (\<bar>(of_nat (roundTiesToEven n d) :: rat) - of_nat n / of_nat d\<bar> = 1 / 2 \<longrightarrow>
            even (roundTiesToEven n d))"
proof -
  define q where "q = n div d"
  define r where "r = n mod d"
  define Q :: rat where "Q = of_nat q"
  define f :: rat where "f = of_nat r / of_nat d"
  have "n = d * q + r" by (simp add: q_def r_def)
  then have "(of_nat n :: rat) = of_nat d * of_nat q + of_nat r"
    by (metis of_nat_add of_nat_mult)
  with assms have x: "(of_nat n :: rat) / of_nat d = Q + f"
    by (simp add: Q_def f_def field_simps)
  have f0: "0 \<le> f" by (simp add: f_def)
  have q1: "(of_nat (q + 1) :: rat) = Q + 1" by (simp add: Q_def)
  consider "2 * r < d" | "d < 2 * r" | "2 * r = d" by linarith
  then show ?thesis
  proof cases
    case 1
    then have m: "(of_nat (roundTiesToEven n d) :: rat) = Q"
      by (simp add: roundTiesToEven_def q_def r_def Let_def Q_def)
    from 1 have "(of_nat (2 * r) :: rat) < of_nat d" by (simp only: of_nat_less_iff)
    with assms have "f < 1 / 2" by (simp add: f_def field_simps)
    with f0 have "\<bar>Q - (Q + f)\<bar> < 1 / 2" by linarith
    then show ?thesis unfolding m x by linarith
  next
    case 2
    then have "roundTiesToEven n d = q + 1"
      by (simp add: roundTiesToEven_def q_def r_def Let_def)
    then have m: "(of_nat (roundTiesToEven n d) :: rat) = Q + 1"
      using q1 by simp
    from 2 have "(of_nat d :: rat) < of_nat (2 * r)" by (simp only: of_nat_less_iff)
    with assms have "1 / 2 < f" by (simp add: f_def field_simps)
    moreover have "r < d" using assms by (simp add: r_def)
    then have "(of_nat r :: rat) < of_nat d" by (simp only: of_nat_less_iff)
    with assms have "f < 1" by (simp add: f_def)
    ultimately have "\<bar>Q + 1 - (Q + f)\<bar> < 1 / 2" by linarith
    then show ?thesis unfolding m x by linarith
  next
    case 3
    then have mm: "roundTiesToEven n d = (if even q then q else q + 1)"
      by (simp add: roundTiesToEven_def q_def r_def Let_def)
    then have ev: "even (roundTiesToEven n d)" by simp
    from mm have m: "(of_nat (roundTiesToEven n d) :: rat) = Q \<or>
                     (of_nat (roundTiesToEven n d) :: rat) = Q + 1"
      using q1 by (simp add: Q_def)
    from 3 have "(of_nat (2 * r) :: rat) = of_nat d" by (simp only: of_nat_eq_iff)
    with assms have h: "f = 1 / 2" by (simp add: f_def field_simps)
    from m have "\<bar>(of_nat (roundTiesToEven n d) :: rat) - (Q + f)\<bar> \<le> 1 / 2"
      unfolding h by (elim disjE) simp_all
    with ev show ?thesis unfolding x by simp
  qed
qed

lemma binade_bounds:
  assumes "0 < n" and "0 < d"
  shows "2 powi binade n d \<le> (of_nat n :: rat) / of_nat d \<and>
         (of_nat n :: rat) / of_nat d < 2 powi (binade n d + 1)"
proof -
  define a where "a = bitLength n"
  define b where "b = bitLength d"
  define e where "e = int a - int b"
  define x :: rat where "x = of_nat n / of_nat d"
  define U :: rat where "U = 2 powi e"
  have U: "U = 2 ^ a / 2 ^ b"
    by (simp add: U_def e_def power_int_diff)
  have Upos: "0 < U" by (simp add: U_def)
  have na: "n < 2 ^ a" and db: "d < 2 ^ b"
    by (simp_all add: a_def b_def bitLength_upper)
  have "2 ^ (a - 1) \<le> n" "2 ^ (b - 1) \<le> d"
    using assms bitLength_lower [of n] bitLength_lower [of d] by (simp_all add: a_def b_def)
  moreover have "0 < a" "0 < b"
    using assms by (simp_all add: a_def b_def bitLength.simps [of n] bitLength.simps [of d])
  moreover have "0 < k \<Longrightarrow> (2::nat) ^ k = 2 * 2 ^ (k - 1)" for k
    by (cases k) simp_all
  ultimately have an: "2 ^ a \<le> 2 * n" and bd: "2 ^ b \<le> 2 * d"
    by simp_all
  have "n * 2 ^ b < 2 ^ a * (2 * d)"
  proof -
    have "n * 2 ^ b < 2 ^ a * 2 ^ b" using na by simp
    also have "\<dots> \<le> 2 ^ a * (2 * d)" using bd by simp
    finally show ?thesis .
  qed
  then have "(of_nat (n * 2 ^ b) :: rat) < of_nat (2 ^ a * (2 * d))"
    by (simp only: of_nat_less_iff)
  then have up: "x < 2 * U"
    using assms by (simp add: x_def U field_simps)
  have "2 ^ a * d < (2 * n) * 2 ^ b"
  proof -
    have "2 ^ a * d \<le> (2 * n) * d" using an by simp
    also have "\<dots> < (2 * n) * 2 ^ b" using db assms by simp
    finally show ?thesis .
  qed
  then have "(of_nat (2 ^ a * d) :: rat) < of_nat ((2 * n) * 2 ^ b)"
    by (simp only: of_nat_less_iff)
  then have lo: "U / 2 < x"
    using assms by (simp add: x_def U field_simps)
  obtain n' d' where sc: "scaleFraction n d (- e) = (n', d')"
    by (cases "scaleFraction n d (- e)")
  from scaleFraction_value [OF sc assms(2)]
  have d': "0 < d'" and v: "(of_nat n' :: rat) / of_nat d' = x * 2 powi (- e)"
    by (simp_all add: x_def)
  have v': "(of_nat n' :: rat) / of_nat d' = x / U"
    by (simp add: v U_def power_int_minus field_simps)
  have cmp: "d' \<le> n' \<longleftrightarrow> U \<le> x"
  proof -
    have "d' \<le> n' \<longleftrightarrow> (of_nat d' :: rat) \<le> of_nat n'" by simp
    also have "\<dots> \<longleftrightarrow> 1 \<le> (of_nat n' :: rat) / of_nat d'" using d' by (simp add: field_simps)
    also have "\<dots> \<longleftrightarrow> U \<le> x" unfolding v' using Upos by (simp add: field_simps)
    finally show ?thesis .
  qed
  have bin: "binade n d = (if U \<le> x then e else e - 1)"
    using sc cmp by (simp add: binade_def Let_def a_def b_def e_def)
  have U2: "2 powi (e + 1) = 2 * U" "2 powi (e - 1) = U / 2" "2 powi (e - 1 + 1) = U"
    by (simp_all add: U_def power_int_add power_int_diff)
  show ?thesis
  proof (cases "U \<le> x")
    case True
    with bin up show ?thesis unfolding x_def [symmetric] by (simp add: U2 U_def [symmetric])
  next
    case False
    with bin lo show ?thesis unfolding x_def [symmetric] by (simp add: U2 U_def [symmetric])
  qed
qed

lemma toDouble_nearest:
  assumes "0 < n" and "0 < d"
  shows "\<exists>m e. toDouble n d = Double m e \<and> 2 ^ 52 \<le> m \<and> m \<le> 2 ^ 53 \<and>
           \<bar>valueOf (Double m e) - of_nat n / of_nat d\<bar> \<le> 2 powi e / 2 \<and>
           (\<bar>valueOf (Double m e) - of_nat n / of_nat d\<bar> = 2 powi e / 2 \<longrightarrow> even m)"
proof -
  define x :: rat where "x = of_nat n / of_nat d"
  define k where "k = 52 - binade n d"
  define u :: rat where "u = 2 powi (- k)"
  obtain n' d' where sc: "scaleFraction n d k = (n', d')"
    by (cases "scaleFraction n d k")
  define m where "m = roundTiesToEven n' d'"
  define y :: rat where "y = of_nat n' / of_nat d'"
  from scaleFraction_value [OF sc assms(2)]
  have d': "0 < d'" and y: "y = x * 2 powi k"
    by (simp_all add: x_def y_def)
  have upos: "0 < u" by (simp add: u_def)
  have xu: "x = y * u"
    by (simp add: y u_def power_int_minus)
  from binade_bounds [OF assms]
  have "2 powi (52 - k) \<le> x" "x < 2 powi (52 - k + 1)"
    by (simp_all add: k_def x_def)
  moreover have "(2::rat) powi (52 - k) = 2 ^ 52 * u" "(2::rat) powi (52 - k + 1) = 2 ^ 53 * u"
    by (simp_all add: u_def power_int_add power_int_diff power_int_minus field_simps)
  ultimately have "2 ^ 52 * u \<le> y * u" "y * u < 2 ^ 53 * u"
    using xu by simp_all
  with upos have yb: "2 ^ 52 \<le> y" "y < 2 ^ 53"
    by simp_all
  from roundTiesToEven_nearest [OF d', of n']
  have near: "\<bar>of_nat m - y\<bar> \<le> 1 / 2" and tie: "\<bar>of_nat m - y\<bar> = 1 / 2 \<Longrightarrow> even m"
    by (simp_all add: m_def y_def)
  have mb: "2 ^ 52 \<le> m \<and> m \<le> 2 ^ 53"
  proof -
    from near yb have "(2 ^ 52 :: rat) - 1 / 2 \<le> of_nat m" "(of_nat m :: rat) < 2 ^ 53 + 1 / 2"
      by linarith+
    then have "(of_nat (2 ^ 52 - 1) :: rat) < of_nat m" "(of_nat m :: rat) < of_nat (2 ^ 53 + 1)"
      by simp_all
    then have "2 ^ 52 - 1 < m" "m < 2 ^ 53 + 1"
      by (simp_all only: of_nat_less_iff)
    then show ?thesis by simp
  qed
  have td: "toDouble n d = Double m (- k)"
    using assms(1) sc by (simp add: toDouble_def Let_def k_def m_def)
  have diff: "\<bar>valueOf (Double m (- k)) - x\<bar> = \<bar>of_nat m - y\<bar> * u"
  proof -
    have "valueOf (Double m (- k)) - x = (of_nat m - y) * u"
      by (simp add: xu u_def algebra_simps)
    then show ?thesis using upos by (simp add: abs_mult)
  qed
  have "\<bar>valueOf (Double m (- k)) - x\<bar> \<le> u / 2"
    unfolding diff using near upos by (simp add: field_simps)
  moreover have "even m" if "\<bar>valueOf (Double m (- k)) - x\<bar> = u / 2"
  proof -
    from that have "\<bar>of_nat m - y\<bar> * u = (1 / 2) * u" unfolding diff by simp
    with upos have "\<bar>of_nat m - y\<bar> = 1 / 2" by simp
    then show ?thesis by (rule tie)
  qed
  ultimately show ?thesis
    using td mb unfolding x_def u_def by blast
qed

lemma js_divide_nearest:
  assumes "0 < a" and "0 < b"
  shows "\<exists>m e. js_divide a b = Double m e \<and> 2 ^ 52 \<le> m \<and> m \<le> 2 ^ 53 \<and>
           \<bar>valueOf (js_divide a b) - of_nat a / of_nat b\<bar> \<le> 2 powi e / 2"
  using toDouble_nearest [OF assms] unfolding js_divide_def by metis

lemma js_times_nearest:
  assumes "0 < m" and "0 < k"
  shows "\<exists>m' e'. js_times (Double m e) k = Double m' e' \<and> 2 ^ 52 \<le> m' \<and> m' \<le> 2 ^ 53 \<and>
           \<bar>valueOf (js_times (Double m e) k) - valueOf (Double m e) * of_nat k\<bar> \<le> 2 powi e' / 2"
proof -
  obtain p q where sc: "scaleFraction (m * k) 1 e = (p, q)"
    by (cases "scaleFraction (m * k) 1 e")
  from scaleFraction_value [OF sc]
  have q: "0 < q" and v: "(of_nat p :: rat) / of_nat q = of_nat (m * k) * 2 powi e"
    by simp_all
  have p: "0 < p"
  proof (rule ccontr)
    assume "\<not> 0 < p"
    then have "(of_nat p :: rat) / of_nat q = 0" by simp
    with v assms show False by simp
  qed
  have t: "js_times (Double m e) k = toDouble p q"
    using sc by (simp add: js_times_def)
  have "valueOf (Double m e) * of_nat k = (of_nat p :: rat) / of_nat q"
    by (simp add: v algebra_simps)
  with toDouble_nearest [OF p q] t show ?thesis
    by metis
qed

lemma Math_round_value: "Math_round x = nat \<lfloor>valueOf x + 1 / 2\<rfloor>"
proof (cases x)
  case (Double m e)
  obtain p q where sc: "scaleFraction m 1 e = (p, q)"
    by (cases "scaleFraction m 1 e")
  from scaleFraction_value [OF sc]
  have q: "0 < q" and v: "(of_nat p :: rat) / of_nat q = of_nat m * 2 powi e"
    by simp_all
  have "valueOf x + 1 / 2 = (of_int (int (2 * p + q)) :: rat) / of_int (int (2 * q))"
    using q by (simp add: Double v [symmetric] field_simps)
  then have "\<lfloor>valueOf x + 1 / 2\<rfloor> = int (2 * p + q) div int (2 * q)"
    by (simp only: floor_divide_of_int_eq)
  then have "nat \<lfloor>valueOf x + 1 / 2\<rfloor> = (2 * p + q) div (2 * q)"
    by (simp add: zdiv_int [symmetric] del: of_nat_add of_nat_mult)
  with sc show ?thesis
    by (simp add: Math_round_def Double)
qed

text \<open>
  Both roundings have a relative error of at most \<open>2^-53\<close>. So, for fewer than \<open>2^43\<close>
  answered questions, of which at most all are correct, the accuracy is an integer
  nearest to the exact percentage: the rounding errors are too small to move it past
  another integer, and decide the direction on an exact tie only (as for 29 out of 200).
\<close>

lemma toDouble_relative:
  assumes "0 < n" and "0 < d"
  shows "\<bar>valueOf (toDouble n d) - of_nat n / of_nat d\<bar> \<le> valueOf (toDouble n d) / 2 ^ 53"
proof -
  from toDouble_nearest [OF assms] obtain m e where
    t: "toDouble n d = Double m e" and m: "2 ^ 52 \<le> m"
    and near: "\<bar>valueOf (Double m e) - of_nat n / of_nat d\<bar> \<le> 2 powi e / 2"
    by blast
  define u :: rat where "u = 2 powi e"
  have upos: "0 < u" by (simp add: u_def)
  from m have "(of_nat (2 ^ 52) :: rat) \<le> of_nat m" by (simp only: of_nat_le_iff)
  then have "(2 ^ 52 :: rat) \<le> of_nat m" by simp
  with upos have "2 ^ 52 * u \<le> of_nat m * u" by simp
  then have h: "u / 2 \<le> of_nat m * u / 2 ^ 53" by simp
  from near have "\<bar>of_nat m * u - of_nat n / of_nat d\<bar> \<le> u / 2"
    unfolding valueOf.simps u_def .
  from this h have "\<bar>of_nat m * u - of_nat n / of_nat d\<bar> \<le> of_nat m * u / 2 ^ 53"
    by (rule order_trans)
  then show ?thesis
    unfolding t valueOf.simps u_def .
qed

lemma js_times_value:
  assumes "0 < valueOf x" and "0 < k"
  shows "\<bar>valueOf (js_times x k) - valueOf x * of_nat k\<bar> \<le> valueOf (js_times x k) / 2 ^ 53"
proof (cases x)
  case (Double m e)
  obtain p q where sc: "scaleFraction (m * k) 1 e = (p, q)"
    by (cases "scaleFraction (m * k) 1 e")
  from scaleFraction_value [OF sc]
  have q: "0 < q" and v: "(of_nat p :: rat) / of_nat q = of_nat (m * k) * 2 powi e"
    by simp_all
  have pv: "valueOf x * of_nat k = (of_nat p :: rat) / of_nat q"
    by (simp add: Double v algebra_simps)
  have p: "0 < p"
  proof (rule ccontr)
    assume "\<not> 0 < p"
    then have "(of_nat p :: rat) / of_nat q = 0" by simp
    with pv assms show False by simp
  qed
  have t: "js_times x k = toDouble p q"
    using sc by (simp add: js_times_def Double)
  from toDouble_relative [OF p q] show ?thesis
    unfolding t pv .
qed

lemma rounding_bound:
  fixes v x :: rat
  assumes "\<bar>v - x\<bar> \<le> v / 2 ^ 53" and "0 \<le> x" and "x \<le> b"
  shows "v \<le> b * (1 + 1 / 2 ^ 52) \<and> \<bar>v - x\<bar> \<le> b * (1 + 1 / 2 ^ 52) / 2 ^ 53"
proof -
  from assms(1) have "v - x \<le> v / 2 ^ 53" by linarith
  then have "v * (1 - 1 / 2 ^ 53) \<le> x" by (simp add: algebra_simps)
  with assms(3) have "v * (1 - 1 / 2 ^ 53) \<le> b" by linarith
  moreover have "(1 - 1 / 2 ^ 53 :: rat) * (1 + 1 / 2 ^ 52) \<ge> 1" by simp
  moreover have "0 \<le> b" using assms(2,3) by linarith
  ultimately have vb: "v \<le> b * (1 + 1 / 2 ^ 52)"
  proof -
    have "0 \<le> (1 + 1 / 2 ^ 52 :: rat)" by simp
    with \<open>v * (1 - 1 / 2 ^ 53) \<le> b\<close>
    have "v * (1 - 1 / 2 ^ 53) * (1 + 1 / 2 ^ 52) \<le> b * (1 + 1 / 2 ^ 52)"
      by (rule mult_right_mono)
    moreover have "0 \<le> v"
    proof -
      from assms(1) have "x - v \<le> v / 2 ^ 53" by linarith
      with assms(2) have "0 \<le> v * (1 + 1 / 2 ^ 53)" by (simp add: algebra_simps)
      then show ?thesis by (simp add: zero_le_mult_iff)
    qed
    then have "v * 1 \<le> v * ((1 - 1 / 2 ^ 53) * (1 + 1 / 2 ^ 52))"
      by (rule mult_left_mono [OF \<open>(1 - 1 / 2 ^ 53 :: rat) * (1 + 1 / 2 ^ 52) \<ge> 1\<close>])
    ultimately show ?thesis by (simp add: mult.assoc)
  qed
  then have "v / 2 ^ 53 \<le> b * (1 + 1 / 2 ^ 52) / 2 ^ 53"
    by (simp add: divide_right_mono)
  with assms(1) vb show ?thesis by linarith
qed

lemma toDouble_positive:
  assumes "0 < n" and "0 < d"
  shows "0 < valueOf (toDouble n d)"
proof -
  from toDouble_nearest [OF assms] obtain m e where
    t: "toDouble n d = Double m e" and m: "2 ^ 52 \<le> m"
    by blast
  from m have "0 < m" by (simp add: order_less_le_trans [of 0 "2 ^ 52" m])
  then show ?thesis by (simp add: t)
qed

lemma accuracyOf_zero_correct: "correct st = 0 \<Longrightarrow> accuracyOf st = 0"
  by (simp add: accuracyOf_def js_divide_def js_times_def toDouble_def scaleFraction_def
        Math_round_def)

lemma accuracy_nearest_percentage:
  assumes "0 < answered st" and "answered st < 2 ^ 43" and "correct st \<le> answered st"
  shows "\<bar>(of_nat (accuracyOf st) :: rat) - 100 * of_nat (correct st) / of_nat (answered st)\<bar>
           \<le> 1 / 2"
proof (cases "correct st = 0")
  case True
  then show ?thesis by (simp add: accuracyOf_zero_correct)
next
  case False
  define a where "a = answered st"
  define c where "c = correct st"
  note assms = assms [folded a_def c_def]
  from False have c: "0 < c" by (simp add: c_def)
  define x :: rat where "x = of_nat c / of_nat a"
  define v1 where "v1 = valueOf (js_divide c a)"
  define v2 where "v2 = valueOf (js_times (js_divide c a) 100)"
  define acc where "acc = accuracyOf st"
  define E :: rat where "E = 1 / 2 ^ 44"
  have x0: "0 \<le> x" by (simp add: x_def)
  have "(of_nat c :: rat) \<le> of_nat a" using assms(3) by (simp only: of_nat_le_iff)
  then have x1: "x \<le> 1" using assms(1) by (simp add: x_def)
  have r1: "\<bar>v1 - x\<bar> \<le> v1 / 2 ^ 53"
    unfolding v1_def x_def js_divide_def by (rule toDouble_relative [OF c assms(1)])
  have v1pos: "0 < v1"
    unfolding v1_def js_divide_def by (rule toDouble_positive [OF c assms(1)])
  from rounding_bound [OF r1 x0 x1]
  have b1: "v1 \<le> 1 * (1 + 1 / 2 ^ 52)" "\<bar>v1 - x\<bar> \<le> 1 * (1 + 1 / 2 ^ 52) / 2 ^ 53"
    by blast+
  have r2: "\<bar>v2 - v1 * of_nat 100\<bar> \<le> v2 / 2 ^ 53"
    unfolding v2_def v1_def by (rule js_times_value) (use v1pos in \<open>simp_all add: v1_def\<close>)
  have p0: "0 \<le> v1 * of_nat 100" using v1pos by simp
  have p1: "v1 * of_nat 100 \<le> 100 * (1 + 1 / 2 ^ 52)" using b1(1) by simp
  from rounding_bound [OF r2 p0 p1]
  have b2: "\<bar>v2 - v1 * of_nat 100\<bar> \<le> 100 * (1 + 1 / 2 ^ 52) * (1 + 1 / 2 ^ 52) / 2 ^ 53"
    by blast
  have "\<bar>v2 - 100 * x\<bar> \<le> \<bar>v2 - v1 * of_nat 100\<bar> + 100 * \<bar>v1 - x\<bar>"
    by (simp add: abs_if) 
  also have "\<dots> \<le> 100 * (1 + 1 / 2 ^ 52) * (1 + 1 / 2 ^ 52) / 2 ^ 53 +
                     100 * (1 * (1 + 1 / 2 ^ 52) / 2 ^ 53)"
    using b1(2) b2 by (intro add_mono mult_left_mono) simp_all
  also have "\<dots> \<le> E"
    by (simp add: E_def)
  finally have err: "\<bar>v2 - 100 * x\<bar> \<le> E" .
  have v2nn: "0 \<le> v2"
  proof -
    from r2 have "v1 * of_nat 100 - v2 \<le> v2 / 2 ^ 53" by linarith
    with p0 have "0 \<le> v2 * (1 + 1 / 2 ^ 53)" by (simp add: algebra_simps)
    then show ?thesis by (simp add: zero_le_mult_iff)
  qed
  have accv: "acc = nat \<lfloor>v2 + 1 / 2\<rfloor>"
    using assms(1) by (simp add: acc_def accuracyOf_def Math_round_value v2_def a_def c_def)
  from v2nn have "0 \<le> \<lfloor>v2 + 1 / 2\<rfloor>" by simp
  with accv have fl: "int acc = \<lfloor>v2 + 1 / 2\<rfloor>" by simp
  have "of_int \<lfloor>v2 + 1 / 2\<rfloor> \<le> v2 + 1 / 2" "v2 + 1 / 2 < of_int \<lfloor>v2 + 1 / 2\<rfloor> + 1"
    by linarith+
  then have A: "(of_int (int acc) :: rat) \<le> v2 + 1 / 2" "v2 + 1 / 2 < of_int (int acc) + 1"
    unfolding fl by simp_all
  define N where "N = 2 * int a * int acc - 200 * int c"
  have apos: "(0::rat) < of_nat a" using assms(1) by simp
  have N: "(of_int N :: rat) = 2 * of_nat a * (of_int (int acc) - 100 * x)"
    using assms(1) by (simp add: N_def x_def algebra_simps)
  have aE: "2 * (of_nat a :: rat) * E < 1"
  proof -
    have "(of_nat a :: rat) < of_nat (2 ^ 43)" using assms(2) by (simp only: of_nat_less_iff)
    then have "(of_nat a :: rat) < 2 ^ 43" by simp
    then show ?thesis by (simp add: E_def)
  qed
  have "of_int (int acc) - 100 * x \<le> 1 / 2 + E" "- (1 / 2) - E < of_int (int acc) - 100 * x"
    using A err by linarith+
  with apos have "2 * of_nat a * (of_int (int acc) - 100 * x) \<le> 2 * of_nat a * (1 / 2 + E)"
    "2 * of_nat a * (- (1 / 2) - E) < 2 * of_nat a * (of_int (int acc) - 100 * x)"
    by simp_all
  with aE have "(of_int N :: rat) < of_nat a + 1" "- (of_nat a :: rat) - 1 < of_int N"
    unfolding N by (simp_all add: algebra_simps)
  then have "(of_int N :: rat) < of_int (int a + 1)" "(of_int (- int a - 1) :: rat) < of_int N"
    by simp_all
  then have "N < int a + 1" "- int a - 1 < N"
    by (simp_all only: of_int_less_iff)
  then have "\<bar>N\<bar> \<le> int a" by linarith
  then have "(of_int \<bar>N\<bar> :: rat) \<le> of_int (int a)" by (simp only: of_int_le_iff)
  then have "\<bar>(of_int N :: rat)\<bar> \<le> of_nat a" by simp
  then have "\<bar>2 * of_nat a * (of_int (int acc) - 100 * x)\<bar> \<le> (of_nat a :: rat)"
    unfolding N .
  then have "2 * of_nat a * \<bar>of_int (int acc) - 100 * x\<bar> \<le> (of_nat a :: rat)"
    using apos by (simp add: abs_mult)
  with apos have "\<bar>of_int (int acc) - 100 * x\<bar> \<le> 1 / 2"
    by (simp add: field_simps)
  then show ?thesis
    by (simp add: acc_def x_def a_def c_def)
qed

subsection \<open>The parser\<close>

lemma parseCommand_eq:
  "parseCommand R rawInput =
     (if trim rawInput = [] then None
      else Some (toLowerCase R (takeWhile (\<lambda>c. c \<noteq> 0x20) (trim rawInput)),
                 trim (dropWhile (\<lambda>c. c \<noteq> 0x20) (trim rawInput))))"
proof -
  have sp: "ascii '' '' = [0x20]" by (simp add: ascii_def)
  obtain p ps where ps: "split 0x20 (trim rawInput) = p # ps"
    using split_not_Nil [of "0x20" "trim rawInput"] by (cases "split 0x20 (trim rawInput)") auto
  from ps have p: "p = takeWhile (\<lambda>c. c \<noteq> 0x20) (trim rawInput)"
    using hd_split [of "0x20" "trim rawInput"] by simp
  from ps have "join [0x20] ps = tl (dropWhile (\<lambda>c. c \<noteq> 0x20) (trim rawInput))"
    using join_tl_split [of "0x20" "trim rawInput"] by simp
  then have "trim (join [0x20] ps) = trim (dropWhile (\<lambda>c. c \<noteq> 0x20) (trim rawInput))"
    by (simp add: trim_tl_dropWhile_space)
  with ps p sp show ?thesis
    by (simp add: parseCommand_def normalizeInput_def Let_def)
qed

lemma parseCommand_trim: "parseCommand R (trim x) = parseCommand R x"
  by (simp add: parseCommand_eq trim_idem)

lemma handleSubmit_empty: "trim (inputValue s) = [] \<Longrightarrow> handleSubmit K R ch s = s"
  by (simp add: handleSubmit_def normalizeInput_def)

lemma parse_agree:
  assumes "\<forall>c\<in>set (trim rawInput). isWhiteSpace c \<longrightarrow> c = 0x20"
  shows "parseCommand R rawInput = parseBySpec R rawInput"
proof -
  have sp: "isWhiteSpace 0x20" by (simp add: isWhiteSpace_def)
  from assms sp have eq: "\<And>c. c \<in> set (trim rawInput) \<Longrightarrow> (c \<noteq> 0x20) = (\<not> isWhiteSpace c)"
    by auto
  have "takeWhile (\<lambda>c. c \<noteq> 0x20) (trim rawInput) = takeWhile (\<lambda>c. \<not> isWhiteSpace c) (trim rawInput)"
    by (rule takeWhile_cong) (simp_all add: eq)
  moreover have "dropWhile (\<lambda>c. c \<noteq> 0x20) (trim rawInput) = dropWhile (\<lambda>c. \<not> isWhiteSpace c) (trim rawInput)"
    by (rule dropWhile_cong) (simp_all add: eq)
  ultimately show ?thesis
    by (simp add: parseCommand_eq parseBySpec_def Let_def)
qed

subsection \<open>What a command leaves alone\<close>

lemma case_option_const: "(case x of None \<Rightarrow> c | Some y \<Rightarrow> c) = c"
  by (cases x) simp_all

lemma case_sum_const: "(case x of Inl a \<Rightarrow> c | Inr b \<Rightarrow> c) = c"
  by (cases x) simp_all

lemma switch_stats [simp]: "sessionStats (handleCommand_switch K R ch k a s) = sessionStats s"
  by (simp add: handleCommand_switch_def Let_def if_distrib [of sessionStats]
        option.case_distrib [of sessionStats] sum.case_distrib [of sessionStats]
        case_option_const case_sum_const split del: if_split cong: if_cong option.case_cong sum.case_cong)

lemma switch_commandHistory [simp]:
  "commandHistory (handleCommand_switch K R ch k a s) = commandHistory s"
  by (simp add: handleCommand_switch_def Let_def if_distrib [of commandHistory]
        option.case_distrib [of commandHistory] sum.case_distrib [of commandHistory]
        case_option_const case_sum_const split del: if_split cong: if_cong option.case_cong sum.case_cong)

lemma quiz_commandHistory [simp]:
  "commandHistory (handleQuizAnswer R ch v s) = commandHistory s"
  by (simp add: handleQuizAnswer_def Let_def split: option.splits)

lemma handleCommand_stats [simp]: "sessionStats (handleCommand K R ch raw s) = sessionStats s"
  by (simp add: handleCommand_def split: option.splits)

lemma handleCommand_commandHistory [simp]:
  "commandHistory (handleCommand K R ch raw s) = commandHistory s"
  by (simp add: handleCommand_def split: option.splits)

lemma handleSubmit_commandHistory:
  "commandHistory (handleSubmit K R ch s) =
     (if trim (inputValue s) = [] then commandHistory s
      else take 30 (trim (inputValue s) #
                    filter (\<lambda>item. item \<noteq> trim (inputValue s)) (commandHistory s)))"
  by (simp add: handleSubmit_def normalizeInput_def Let_def MAX_HISTORY_COMMANDS_def)

lemma submitLine_commandHistory:
  "commandHistory (submitLine K R ev s) =
     (if trim (fst ev) = [] then commandHistory s
      else take 30 (trim (fst ev) # filter (\<lambda>item. item \<noteq> trim (fst ev)) (commandHistory s)))"
  by (simp add: submitLine_def handleSubmit_commandHistory)

subsection \<open>The branches of the dispatcher\<close>

lemma handleSubmit_idle:
  assumes "pendingState s = None" and "parseCommand R (inputValue s) = Some (k, a)"
  shows "handleSubmit K R ch s =
           handleCommand_switch K R ch k a
             (addEntry User [trim (inputValue s)] (userId ch) s
                \<lparr>commandHistory :=
                   take MAX_HISTORY_COMMANDS
                     (trim (inputValue s) #
                      filter (\<lambda>item. item \<noteq> trim (inputValue s)) (commandHistory s)),
                 historyIndexRef := None, inputValue := []\<rparr>)"
proof -
  from assms(2) have ne: "trim (inputValue s) \<noteq> []"
    by (auto simp: parseCommand_eq split: if_splits)
  from assms(2) have "parseCommand R (trim (inputValue s)) = Some (k, a)"
    by (simp add: parseCommand_trim)
  with ne assms(1) show ?thesis
    by (simp add: handleSubmit_def handleCommand_def normalizeInput_def Let_def)
qed

lemma handleSubmit_pending:
  assumes "pendingState s \<noteq> None" and "trim (inputValue s) \<noteq> []"
  shows "handleSubmit K R ch s =
           handleQuizAnswer R ch (trim (inputValue s))
             (addEntry User [trim (inputValue s)] (userId ch) s
                \<lparr>commandHistory :=
                   take MAX_HISTORY_COMMANDS
                     (trim (inputValue s) #
                      filter (\<lambda>item. item \<noteq> trim (inputValue s)) (commandHistory s)),
                 historyIndexRef := None, inputValue := []\<rparr>)"
  using assms by (simp add: handleSubmit_def normalizeInput_def Let_def)

text \<open>
  While a quiz is pending, submitting an accepted line has the effect of the quiz
  handler on the statistics and on the pending question, and appends the entry of the
  user and the reply of the quiz handler to the history.
\<close>

lemma handleSubmit_quiz_fields:
  assumes "pendingState s \<noteq> None" and "trim (inputValue s) \<noteq> []"
  shows "sessionStats (handleSubmit K R ch s) = sessionStats (handleQuizAnswer R ch (inputValue s) s) \<and>
         pendingState (handleSubmit K R ch s) =
           pendingState (handleQuizAnswer R ch (inputValue s) s) \<and>
         history (handleSubmit K R ch s) =
           history s @
           [\<lparr>entry_id = userId ch, role = User, content = [trim (inputValue s)]\<rparr>,
            last (history (handleQuizAnswer R ch (inputValue s) s))]"
  using assms
  by (auto simp add: handleSubmit_pending handleQuizAnswer_def trim_idem Let_def)

lemma switch_clear:
  "k = ascii ''clear'' \<or> k = ascii ''cls'' \<Longrightarrow>
   handleCommand_switch K R ch k a s = resetTerminal (replyId ch) s"
  by (elim disjE; simp add: handleCommand_switch_def ascii_def)

lemma switch_status:
  "handleCommand_switch K R ch (ascii ''status'') a s =
     showAssistant
       [buildSessionStatus (sessionStats s), [0xD83D, 0xDCA1] @ ascii '' '' @ pickLine ch (motivationalTips K)]
       (replyId ch) s"
  by (simp add: handleCommand_switch_def ascii_def)

lemma switch_resources:
  "k = ascii ''resources'' \<or> k = ascii ''recursos'' \<Longrightarrow>
   handleCommand_switch K R ch k a s =
     showAssistant
       (formatResources K (if a \<noteq> [] then findTopicByAlias K a else None)) (replyId ch) s"
  by (elim disjE; simp add: handleCommand_switch_def ascii_def)

lemma switch_labs:
  "k = ascii ''labs'' \<or> k = ascii ''lab'' \<Longrightarrow>
   handleCommand_switch K R ch k a s =
     showAssistant
       (formatLabs K (if a \<noteq> [] then findTopicByAlias K a else None)) (replyId ch) s"
  by (elim disjE; simp add: handleCommand_switch_def ascii_def)

lemmas run_eval = handleSubmit_def handleQuizAnswer_def normalizeInput_def Let_def
  MAX_HISTORY_COMMANDS_def addEntry_def showAssistant_def

lemmas session_eval = submitLine_def run_eval handleCommand_def parseCommand_def
  handleCommand_switch_def pickQuizQuestion_def sampleKnowledge_def sampleTopic_def
  sampleQuestion_def randomIndex_def sampleChance_def initialTerminal_def string_eval

subsection \<open>The statistics over a session\<close>

lemma quiz_stats_cases:
  "sessionStats (handleQuizAnswer R ch v s) = sessionStats s \<or>
   sessionStats (handleQuizAnswer R ch v s) =
     \<lparr>answered = answered (sessionStats s) + 1, correct = correct (sessionStats s), streak = 0\<rparr> \<or>
   sessionStats (handleQuizAnswer R ch v s) =
     \<lparr>answered = answered (sessionStats s) + 1, correct = correct (sessionStats s) + 1,
      streak = streak (sessionStats s) + 1\<rparr>"
  by (simp add: handleQuizAnswer_def Let_def split: option.splits)

lemma handleSubmit_stats_cases:
  "sessionStats (handleSubmit K R ch s) = sessionStats s \<or>
   sessionStats (handleSubmit K R ch s) =
     \<lparr>answered = answered (sessionStats s) + 1, correct = correct (sessionStats s), streak = 0\<rparr> \<or>
   sessionStats (handleSubmit K R ch s) =
     \<lparr>answered = answered (sessionStats s) + 1, correct = correct (sessionStats s) + 1,
      streak = streak (sessionStats s) + 1\<rparr>"
proof -
  let ?s3 = "addEntry User [trim (inputValue s)] (userId ch) s
      \<lparr>commandHistory := take MAX_HISTORY_COMMANDS (trim (inputValue s) #
          filter (\<lambda>item. item \<noteq> trim (inputValue s)) (commandHistory (addEntry User [trim (inputValue s)] (userId ch) s))),
       historyIndexRef := None, inputValue := []\<rparr>"
  have s3: "sessionStats ?s3 = sessionStats s" by simp
  show ?thesis
    using quiz_stats_cases [of R ch "trim (inputValue s)" ?s3] s3
    by (auto simp add: handleSubmit_def normalizeInput_def Let_def)
qed

lemma submitLine_stats_cases:
  "sessionStats (submitLine K R ev s) = sessionStats s \<or>
   sessionStats (submitLine K R ev s) =
     \<lparr>answered = answered (sessionStats s) + 1, correct = correct (sessionStats s), streak = 0\<rparr> \<or>
   sessionStats (submitLine K R ev s) =
     \<lparr>answered = answered (sessionStats s) + 1, correct = correct (sessionStats s) + 1,
      streak = streak (sessionStats s) + 1\<rparr>"
  using handleSubmit_stats_cases [of K R "snd ev" "s\<lparr>inputValue := fst ev\<rparr>"]
  by (simp add: submitLine_def)

lemma submitLine_correct_le:
  assumes "correct (sessionStats s) \<le> answered (sessionStats s)"
  shows "correct (sessionStats (submitLine K R ev s)) \<le> answered (sessionStats (submitLine K R ev s))"
  using submitLine_stats_cases [of K R ev s] assms by auto

lemma run_correct_le:
  "correct (sessionStats s) \<le> answered (sessionStats s) \<Longrightarrow>
   correct (sessionStats (run K R s evs)) \<le> answered (sessionStats (run K R s evs))"
proof (induction evs arbitrary: s)
  case Nil
  then show ?case by simp
next
  case (Cons ev evs)
  from Cons.prems have "correct (sessionStats (submitLine K R ev s)) \<le> answered (sessionStats (submitLine K R ev s))"
    by (rule submitLine_correct_le)
  then show ?case
    using Cons.IH by simp
qed

text \<open>
  The accuracy against the exactly rounded percentage: they agree unless the exact
  percentage is halfway between two integers, where the roundings of binary64 may
  leave the product just below the half and the accuracy one lower. A session of
  fewer than \<open>2^43\<close> lines stays within the bounds this needs.
\<close>

lemma accuracy_spec_or_tie:
  assumes "0 < answered st" and "answered st < 2 ^ 43" and "correct st \<le> answered st"
  shows "accuracyOf st = accuracyBySpec st \<or>
         (halfway st \<and> accuracyOf st + 1 = accuracyBySpec st)"
proof -
  define a where "a = answered st"
  define c where "c = correct st"
  define acc where "acc = accuracyOf st"
  define X :: rat where "X = of_nat c / of_nat a * 100"
  have apos: "0 < a" using assms(1) by (simp add: a_def)
  have "X = 100 * of_nat (correct st) / of_nat (answered st)"
    by (simp add: X_def a_def c_def)
  with accuracy_nearest_percentage [OF assms]
  have near: "\<bar>(of_nat acc :: rat) - X\<bar> \<le> 1 / 2"
    by (simp only: acc_def)
  have spec: "accuracyBySpec st = nat \<lfloor>X + 1 / 2\<rfloor>"
    using assms(1) by (simp add: accuracyBySpec_def X_def a_def c_def)
  consider "- (1 / 2) < (of_nat acc :: rat) - X" | "(of_nat acc :: rat) - X = - (1 / 2)"
    | "(of_nat acc :: rat) - X < - (1 / 2)"
    by linarith
  then show ?thesis
  proof cases
    case 1
    with near have "(of_nat acc :: rat) \<le> X + 1 / 2" "X + 1 / 2 < of_nat acc + 1"
      by linarith+
    then have "(of_int (int acc) :: rat) \<le> X + 1 / 2" "X + 1 / 2 < of_int (int acc) + 1"
      by simp_all
    then have "\<lfloor>X + 1 / 2\<rfloor> = int acc" by (rule floor_unique)
    then show ?thesis by (simp add: spec acc_def)
  next
    case 2
    then have "X + 1 / 2 = of_nat acc + 1" by linarith
    then have "X + 1 / 2 = of_int (int acc + 1)" by simp
    then have "\<lfloor>X + 1 / 2\<rfloor> = int acc + 1" by (simp only: floor_of_int)
    then have s1: "accuracyOf st + 1 = accuracyBySpec st" by (simp add: spec acc_def)
    from 2 have "X = of_nat acc + 1 / 2" by linarith
    then have "(of_nat c :: rat) / of_nat a * 100 = of_nat acc + 1 / 2"
      by (simp only: X_def)
    then have "(of_nat c :: rat) * 200 = (2 * of_nat acc + 1) * of_nat a"
      using apos by (simp add: field_simps)
    then have "(of_nat (200 * c) :: rat) = of_nat (acc * (2 * a) + a)"
      by (simp add: algebra_simps)
    then have eq: "200 * c = acc * (2 * a) + a" by (simp only: of_nat_eq_iff)
    have "(acc * (2 * a) + a) mod (2 * a) = a" using apos by simp
    with eq have "halfway st" by (simp add: halfway_def a_def c_def)
    with s1 show ?thesis by simp
  next
    case 3
    with near show ?thesis by linarith
  qed
qed

lemma answered_submitLine_le:
  "answered (sessionStats (submitLine K R ev s)) \<le> answered (sessionStats s) + 1"
  using submitLine_stats_cases [of K R ev s] by auto

lemma answered_run_le:
  "answered (sessionStats (run K R s evs)) \<le> answered (sessionStats s) + length evs"
proof (induction evs arbitrary: s)
  case Nil
  show ?case by simp
next
  case (Cons ev evs)
  have "answered (sessionStats (run K R (submitLine K R ev s) evs)) \<le>
        answered (sessionStats (submitLine K R ev s)) + length evs"
    by (rule Cons.IH)
  also have "\<dots> \<le> answered (sessionStats s) + 1 + length evs"
    using answered_submitLine_le [of K R ev s] by simp
  finally show ?case by simp
qed

lemma session_accuracy_spec_or_tie:
  assumes "length evs < 2 ^ 43"
  shows "accuracyOf (sessionStats (run K R initialTerminal evs)) =
           accuracyBySpec (sessionStats (run K R initialTerminal evs)) \<or>
         (halfway (sessionStats (run K R initialTerminal evs)) \<and>
          accuracyOf (sessionStats (run K R initialTerminal evs)) + 1 =
            accuracyBySpec (sessionStats (run K R initialTerminal evs)))"
proof (cases "answered (sessionStats (run K R initialTerminal evs)) = 0")
  case True
  then show ?thesis by (simp add: accuracyOf_def accuracyBySpec_def)
next
  case False
  have "answered (sessionStats (run K R initialTerminal evs)) \<le>
        answered (sessionStats initialTerminal) + length evs"
    by (rule answered_run_le)
  with assms have "answered (sessionStats (run K R initialTerminal evs)) < 2 ^ 43"
    by (simp add: initialTerminal_def)
  moreover have "correct (sessionStats (run K R initialTerminal evs)) \<le>
                 answered (sessionStats (run K R initialTerminal evs))"
    by (rule run_correct_le) (simp add: initialTerminal_def)
  ultimately show ?thesis
    using False by (intro accuracy_spec_or_tie) simp_all
qed

subsection \<open>The recall buffer over a session\<close>

lemma take_filter_take:
  "distinct L \<Longrightarrow>
   take k (filter (\<lambda>x. x \<noteq> n) (take (Suc k) L)) = take k (filter (\<lambda>x. x \<noteq> n) L)"
proof (induction L arbitrary: k)
  case Nil
  then show ?case by simp
next
  case (Cons x xs)
  show ?case
  proof (cases "x = n")
    case True
    with Cons.prems have "n \<notin> set xs" by simp
    then have "filter (\<lambda>x. x \<noteq> n) xs = xs" "filter (\<lambda>x. x \<noteq> n) (take k xs) = take k xs"
      by (auto simp: filter_id_conv dest: in_set_takeD)
    with True show ?thesis by simp
  next
    case False
    show ?thesis
    proof (cases k)
      case 0
      then show ?thesis by simp
    next
      case (Suc j)
      from Cons.prems have "distinct xs" by simp
      from Cons.IH [OF this, of j] False Suc show ?thesis by simp
    qed
  qed
qed

lemma remdups_snoc: "remdups (xs @ [n]) = filter (\<lambda>x. x \<noteq> n) (remdups xs) @ [n]"
  by (induction xs) auto

lemma length_filter_neq:
  "distinct b \<Longrightarrow> n \<in> set b \<Longrightarrow> length (filter (\<lambda>x. x \<noteq> n) b) = length b - 1"
proof (induction b)
  case Nil
  then show ?case by simp
next
  case (Cons x xs)
  show ?case
  proof (cases "x = n")
    case True
    with Cons.prems have "n \<notin> set xs" by simp
    then have "filter (\<lambda>x. x \<noteq> n) xs = xs"
      by (auto simp: filter_id_conv)
    with True show ?thesis by simp
  next
    case False
    with Cons.prems have "n \<in> set xs" "distinct xs" by auto
    with Cons.IH have "length (filter (\<lambda>x. x \<noteq> n) xs) = length xs - 1" by simp
    moreover from \<open>n \<in> set xs\<close> have "0 < length xs" by (cases xs) auto
    ultimately show ?thesis using False by simp
  qed
qed

lemma recent_snoc:
  "take (Suc k) (rev (remdups (xs @ [n]))) =
   take (Suc k) (n # filter (\<lambda>x. x \<noteq> n) (take (Suc k) (rev (remdups xs))))"
proof -
  have "rev (remdups (xs @ [n])) = n # filter (\<lambda>x. x \<noteq> n) (rev (remdups xs))"
    by (simp add: remdups_snoc rev_filter)
  moreover have "distinct (rev (remdups xs))" by simp
  ultimately show ?thesis
    using take_filter_take [of "rev (remdups xs)" k n] by simp
qed

lemma run_snoc: "run K R s (evs @ [ev]) = submitLine K R ev (run K R s evs)"
  by (induction evs arbitrary: s) simp_all

lemma acceptedLines_snoc:
  "acceptedLines (evs @ [ev]) =
     (if trim (fst ev) = [] then acceptedLines evs else acceptedLines evs @ [trim (fst ev)])"
  by (simp add: acceptedLines_def normalizeInput_def)

lemma run_commandHistory:
  "commandHistory (run K R initialTerminal evs) = take 30 (rev (remdups (acceptedLines evs)))"
proof (induction evs rule: rev_induct)
  case Nil
  show ?case by (simp add: initialTerminal_def acceptedLines_def)
next
  case (snoc ev evs)
  show ?case
  proof (cases "trim (fst ev) = []")
    case True
    with snoc show ?thesis
      by (simp add: run_snoc acceptedLines_snoc submitLine_commandHistory)
  next
    case False
    have "take (Suc 29) (rev (remdups (acceptedLines evs @ [trim (fst ev)]))) =
          take (Suc 29) (trim (fst ev) #
            filter (\<lambda>x. x \<noteq> trim (fst ev)) (take (Suc 29) (rev (remdups (acceptedLines evs)))))"
      by (rule recent_snoc)
    with False snoc show ?thesis
      by (simp add: run_snoc acceptedLines_snoc submitLine_commandHistory)
  qed
qed

section \<open>Clearing the terminal\<close>

text \<open>
  C1, as the code has it. When no quiz is pending, a line whose command key is \<open>clear\<close> or
  \<open>cls\<close> replaces the history, whatever its length, by the boot entry followed by the
  confirmation of the assistant, and leaves no question pending; the statistics stay.
  When a quiz is pending, every accepted line, \<open>clear\<close> too, is handed to the quiz as an
  answer, so the history is not reset then. The counterexample is the line \<open>clear\<close>
  during a quiz: it counts as a first wrong answer, the question stays pending and the
  history grows by two entries.
\<close>

theorem clear_resets_idle_terminal:
  "(pendingState s = None \<longrightarrow> parseCommand R (inputValue s) = Some (k, a) \<longrightarrow>
      k = ascii ''clear'' \<or> k = ascii ''cls'' \<longrightarrow>
      history (handleSubmit K R ch s) =
        initialHistory @
        [\<lparr>entry_id = replyId ch, role = Assistant,
          content = [ascii ''Pantalla limpia. Continuemos.'']\<rparr>] \<and>
      pendingState (handleSubmit K R ch s) = None \<and>
      sessionStats (handleSubmit K R ch s) = sessionStats s) \<and>
   (pendingState s \<noteq> None \<longrightarrow> trim (inputValue s) \<noteq> [] \<longrightarrow>
      handleSubmit K R ch s =
        handleQuizAnswer R ch (trim (inputValue s))
          (addEntry User [trim (inputValue s)] (userId ch) s
             \<lparr>commandHistory :=
                take MAX_HISTORY_COMMANDS
                  (trim (inputValue s) #
                   filter (\<lambda>item. item \<noteq> trim (inputValue s)) (commandHistory s)),
              historyIndexRef := None, inputValue := []\<rparr>))"
  by (simp add: handleSubmit_idle handleSubmit_pending switch_clear)

theorem clear_resets_idle_terminal_witness:
  "pendingState (initialTerminal\<lparr>history := initialHistory @ initialHistory, inputValue := ascii '' CLS ''\<rparr>) = None \<and>
   parseCommand asciiRuntime (inputValue (initialTerminal\<lparr>history := initialHistory @ initialHistory, inputValue := ascii '' CLS ''\<rparr>)) =
     Some (ascii ''cls'', []) \<and>
   history
     (handleSubmit sampleKnowledge asciiRuntime sampleChance
        (initialTerminal\<lparr>history := initialHistory @ initialHistory, inputValue := ascii '' CLS ''\<rparr>)) =
     initialHistory @
     [\<lparr>entry_id = ascii ''a'', role = Assistant,
       content = [ascii ''Pantalla limpia. Continuemos.'']\<rparr>] \<and>
   pendingState
     (handleSubmit sampleKnowledge asciiRuntime sampleChance
        (initialTerminal\<lparr>history := initialHistory @ initialHistory, inputValue := ascii '' CLS ''\<rparr>)) = None \<and>
   pendingState (quizTerminal\<lparr>inputValue := ascii ''clear''\<rparr>) \<noteq> None \<and>
   handleSubmit sampleKnowledge asciiRuntime sampleChance (quizTerminal\<lparr>inputValue := ascii ''clear''\<rparr>) =
     handleQuizAnswer asciiRuntime sampleChance (ascii ''clear'')
       (quizTerminal
          \<lparr>history := initialHistory @ [\<lparr>entry_id = ascii ''u'', role = User, content = [ascii ''clear'']\<rparr>],
           commandHistory := [ascii ''clear''], inputValue := []\<rparr>)"
proof -
  let ?s = "initialTerminal\<lparr>history := initialHistory @ initialHistory, inputValue := ascii '' CLS ''\<rparr>"
  let ?q = "quizTerminal\<lparr>inputValue := ascii ''clear''\<rparr>"
  have p: "pendingState ?s = None"
    by (simp add: initialTerminal_def)
  have c: "parseCommand asciiRuntime (inputValue ?s) = Some (ascii ''cls'', [])"
    by (simp add: parseCommand_def normalizeInput_def string_eval)
  have r: "replyId sampleChance = ascii ''a''" "userId sampleChance = ascii ''u''"
    by (simp_all add: sampleChance_def)
  have q: "pendingState ?q \<noteq> None" "trim (inputValue ?q) \<noteq> []"
    "trim (inputValue ?q) = ascii ''clear''"
    by (simp_all add: quizTerminal_def string_eval)
  have e: "addEntry User [ascii ''clear''] (ascii ''u'') ?q
             \<lparr>commandHistory :=
                take MAX_HISTORY_COMMANDS
                  (ascii ''clear'' # filter (\<lambda>item. item \<noteq> ascii ''clear'') (commandHistory ?q)),
              historyIndexRef := None, inputValue := []\<rparr> =
           quizTerminal
             \<lparr>history := initialHistory @ [\<lparr>entry_id = ascii ''u'', role = User, content = [ascii ''clear'']\<rparr>],
              commandHistory := [ascii ''clear''], inputValue := []\<rparr>"
    by (simp add: addEntry_def quizTerminal_def initialTerminal_def MAX_HISTORY_COMMANDS_def)
  from clear_resets_idle_terminal
         [of ?s asciiRuntime "ascii ''cls''" "[]" sampleKnowledge sampleChance] p c r
  have "history (handleSubmit sampleKnowledge asciiRuntime sampleChance ?s) =
          initialHistory @
          [\<lparr>entry_id = ascii ''a'', role = Assistant,
            content = [ascii ''Pantalla limpia. Continuemos.'']\<rparr>] \<and>
        pendingState (handleSubmit sampleKnowledge asciiRuntime sampleChance ?s) = None"
    by simp
  moreover from clear_resets_idle_terminal
         [of ?q asciiRuntime "ascii ''cls''" "[]" sampleKnowledge sampleChance] q r e
  have "handleSubmit sampleKnowledge asciiRuntime sampleChance ?q =
     handleQuizAnswer asciiRuntime sampleChance (ascii ''clear'')
       (quizTerminal
          \<lparr>history := initialHistory @ [\<lparr>entry_id = ascii ''u'', role = User, content = [ascii ''clear'']\<rparr>],
           commandHistory := [ascii ''clear''], inputValue := []\<rparr>)"
    by simp
  ultimately show ?thesis
    using p c q(1) by simp
qed

theorem clear_during_quiz_counterexample:
  "pendingState
     (handleSubmit sampleKnowledge asciiRuntime sampleChance
        (quizTerminal\<lparr>inputValue := ascii ''clear''\<rparr>)) =
     Some (samplePending\<lparr>attempts := 1\<rparr>) \<and>
   history
     (handleSubmit sampleKnowledge asciiRuntime sampleChance
        (quizTerminal\<lparr>inputValue := ascii ''clear''\<rparr>)) =
     initialHistory @
     [\<lparr>entry_id = ascii ''u'', role = User, content = [ascii ''clear'']\<rparr>,
      \<lparr>entry_id = ascii ''a'', role = Assistant,
        content =
          [ascii ''Respuesta incorrecta. Puedes intentar nuevamente, pedir `hint` o escribir `skip`.'']\<rparr>]"
proof -
  have t: "trim (ascii ''clear'') = ascii ''clear''"
    "toLowerCase asciiRuntime (ascii ''clear'') = ascii ''clear''"
    "toLowerCase asciiRuntime (ascii ''TCP'') = ascii ''tcp''"
    by (simp_all add: string_eval)
  have d: "ascii ''clear'' \<noteq> []" "ascii ''clear'' \<noteq> ascii ''hint''"
    "ascii ''clear'' \<noteq> ascii ''pista''" "ascii ''clear'' \<noteq> ascii ''skip''"
    "ascii ''clear'' \<noteq> ascii ''omitir''" "ascii ''clear'' \<noteq> ascii ''tcp''"
    by (simp_all add: ascii_def)
  show ?thesis
    by (simp add: run_eval quizTerminal_def initialTerminal_def samplePending_def
          sampleQuestion_def sampleChance_def t d)
qed

section \<open>The quiz: a correct answer\<close>

text \<open>
  C2. While a quiz is pending, a line that is neither a hint token nor a skip token and
  that, trimmed and in lower case, equals the answer of the question in lower case
  resolves the round as correct: \<open>answered\<close>, \<open>correct\<close> and \<open>streak\<close> each grow by exactly
  one, the assistant shows the success message, the explanation, the status line of the
  updated statistics and the invitation to go on, and no question is pending any more.
\<close>

theorem correct_answer_resolves:
  assumes "pendingState s = Some p"
    and "toLowerCase R (trim v) \<noteq> ascii ''hint''" and "toLowerCase R (trim v) \<noteq> ascii ''pista''"
    and "toLowerCase R (trim v) \<noteq> ascii ''skip''" and "toLowerCase R (trim v) \<noteq> ascii ''omitir''"
    and "toLowerCase R (trim v) = toLowerCase R (answer (question p))"
  shows "answered (sessionStats (handleQuizAnswer R ch v s)) = answered (sessionStats s) + 1 \<and>
         correct (sessionStats (handleQuizAnswer R ch v s)) = correct (sessionStats s) + 1 \<and>
         streak (sessionStats (handleQuizAnswer R ch v s)) = streak (sessionStats s) + 1 \<and>
         pendingState (handleQuizAnswer R ch v s) = None \<and>
         history (handleQuizAnswer R ch v s) =
           history s @
           [\<lparr>entry_id = replyId ch, role = Assistant,
             content =
               [[0x2705] @ ascii '' '' @ [0xA1] @ ascii ''Correcto!'',
                ascii ''Explicaci'' @ [0xF3] @ ascii ''n: '' @ explanation (question p),
                buildSessionStatus (sessionStats (handleQuizAnswer R ch v s)),
                ascii ''Escribe `quiz` para otra pregunta o explora con `lesson <tema>`.'']\<rparr>]"
  using assms by (simp add: handleQuizAnswer_def Let_def)

theorem correct_answer_resolves_witness:
  "pendingState quizTerminal = Some samplePending \<and>
   toLowerCase asciiRuntime (trim (ascii '' tcp '')) =
     toLowerCase asciiRuntime (answer (question samplePending)) \<and>
   sessionStats (handleQuizAnswer asciiRuntime sampleChance (ascii '' tcp '') quizTerminal) =
     \<lparr>answered = 1, correct = 1, streak = 1\<rparr> \<and>
   pendingState (handleQuizAnswer asciiRuntime sampleChance (ascii '' tcp '') quizTerminal) = None"
proof -
  have p: "pendingState quizTerminal = Some samplePending"
    by (simp add: quizTerminal_def)
  have n: "toLowerCase asciiRuntime (trim (ascii '' tcp '')) = ascii ''tcp''"
    by (simp add: string_eval)
  have a: "toLowerCase asciiRuntime (answer (question samplePending)) = ascii ''tcp''"
    by (simp add: samplePending_def sampleQuestion_def string_eval)
  have d: "ascii ''tcp'' \<noteq> ascii ''hint''" "ascii ''tcp'' \<noteq> ascii ''pista''"
    "ascii ''tcp'' \<noteq> ascii ''skip''" "ascii ''tcp'' \<noteq> ascii ''omitir''"
    by (simp_all add: ascii_def)
  from correct_answer_resolves
         [of quizTerminal samplePending asciiRuntime "ascii '' tcp ''" sampleChance] p n a d
  have "answered (sessionStats (handleQuizAnswer asciiRuntime sampleChance (ascii '' tcp '') quizTerminal)) =
          answered (sessionStats quizTerminal) + 1 \<and>
        correct (sessionStats (handleQuizAnswer asciiRuntime sampleChance (ascii '' tcp '') quizTerminal)) =
          correct (sessionStats quizTerminal) + 1 \<and>
        streak (sessionStats (handleQuizAnswer asciiRuntime sampleChance (ascii '' tcp '') quizTerminal)) =
          streak (sessionStats quizTerminal) + 1 \<and>
        pendingState (handleQuizAnswer asciiRuntime sampleChance (ascii '' tcp '') quizTerminal) = None"
    by simp
  then show ?thesis using p n a
    by (simp add: quizTerminal_def initialTerminal_def sessionStats.equality)
qed

section \<open>The quiz: a wrong answer\<close>

text \<open>
  C3. While a quiz is pending, a line that is neither a hint token nor a skip token and
  does not match the answer counts as an attempt. With \<open>attempts = 0\<close> the same question
  stays pending with \<open>attempts = 1\<close>, the statistics are unchanged and the assistant
  invites to retry, ask for a hint or skip. With \<open>attempts = 1\<close> the round is failed:
  \<open>answered\<close> grows by exactly one, \<open>correct\<close> is unchanged, \<open>streak\<close> becomes 0, the
  assistant reveals the answer and the explanation with the updated status line, and
  no question is pending any more.
\<close>

theorem wrong_answer_retry_then_fail:
  assumes "pendingState s = Some p"
    and "toLowerCase R (trim v) \<noteq> ascii ''hint''" and "toLowerCase R (trim v) \<noteq> ascii ''pista''"
    and "toLowerCase R (trim v) \<noteq> ascii ''skip''" and "toLowerCase R (trim v) \<noteq> ascii ''omitir''"
    and "toLowerCase R (trim v) \<noteq> toLowerCase R (answer (question p))"
  shows "(attempts p = 0 \<longrightarrow>
            pendingState (handleQuizAnswer R ch v s) = Some (p\<lparr>attempts := 1\<rparr>) \<and>
            sessionStats (handleQuizAnswer R ch v s) = sessionStats s \<and>
            history (handleQuizAnswer R ch v s) =
              history s @
              [\<lparr>entry_id = replyId ch, role = Assistant,
                content =
                  [ascii ''Respuesta incorrecta. Puedes intentar nuevamente, pedir `hint` o escribir `skip`.'']\<rparr>]) \<and>
         (attempts p = 1 \<longrightarrow>
            answered (sessionStats (handleQuizAnswer R ch v s)) = answered (sessionStats s) + 1 \<and>
            correct (sessionStats (handleQuizAnswer R ch v s)) = correct (sessionStats s) \<and>
            streak (sessionStats (handleQuizAnswer R ch v s)) = 0 \<and>
            pendingState (handleQuizAnswer R ch v s) = None \<and>
            history (handleQuizAnswer R ch v s) =
              history s @
              [\<lparr>entry_id = replyId ch, role = Assistant,
                content =
                  [[0x274C] @ ascii '' Respuesta incorrecta.'',
                   ascii ''La respuesta correcta es: '' @ answer (question p),
                   ascii ''Explicaci'' @ [0xF3] @ ascii ''n: '' @ explanation (question p),
                   buildSessionStatus (sessionStats (handleQuizAnswer R ch v s)),
                   ascii ''Puedes escribir `quiz` para intentar otra o `lesson <tema>` para repasar.'']\<rparr>])"
  using assms by (simp add: handleQuizAnswer_def Let_def)

theorem wrong_answer_retry_then_fail_witness:
  "toLowerCase asciiRuntime (trim (ascii ''udp'')) \<noteq>
     toLowerCase asciiRuntime (answer (question samplePending)) \<and>
   pendingState (handleQuizAnswer asciiRuntime sampleChance (ascii ''udp'') quizTerminal) =
     Some (samplePending\<lparr>attempts := 1\<rparr>) \<and>
   sessionStats (handleQuizAnswer asciiRuntime sampleChance (ascii ''udp'') quizTerminal) =
     \<lparr>answered = 0, correct = 0, streak = 0\<rparr> \<and>
   pendingState
     (handleQuizAnswer asciiRuntime sampleChance (ascii ''udp'')
        (quizTerminal\<lparr>pendingState := Some (samplePending\<lparr>attempts := 1\<rparr>),
                      sessionStats := \<lparr>answered = 3, correct = 3, streak = 3\<rparr>\<rparr>)) = None \<and>
   sessionStats
     (handleQuizAnswer asciiRuntime sampleChance (ascii ''udp'')
        (quizTerminal\<lparr>pendingState := Some (samplePending\<lparr>attempts := 1\<rparr>),
                      sessionStats := \<lparr>answered = 3, correct = 3, streak = 3\<rparr>\<rparr>)) =
     \<lparr>answered = 4, correct = 3, streak = 0\<rparr>"
proof -
  let ?s1 = "quizTerminal\<lparr>pendingState := Some (samplePending\<lparr>attempts := 1\<rparr>),
                          sessionStats := \<lparr>answered = 3, correct = 3, streak = 3\<rparr>\<rparr>"
  have n: "toLowerCase asciiRuntime (trim (ascii ''udp'')) = ascii ''udp''"
    by (simp add: string_eval)
  have a: "toLowerCase asciiRuntime (answer (question samplePending)) = ascii ''tcp''"
    "toLowerCase asciiRuntime (answer (question (samplePending\<lparr>attempts := 1\<rparr>))) = ascii ''tcp''"
    by (simp_all add: samplePending_def sampleQuestion_def string_eval)
  have d: "ascii ''udp'' \<noteq> ascii ''hint''" "ascii ''udp'' \<noteq> ascii ''pista''"
    "ascii ''udp'' \<noteq> ascii ''skip''" "ascii ''udp'' \<noteq> ascii ''omitir''"
    "ascii ''udp'' \<noteq> ascii ''tcp''"
    by (simp_all add: ascii_def)
  have p0: "pendingState quizTerminal = Some samplePending" "attempts samplePending = 0"
    "sessionStats quizTerminal = \<lparr>answered = 0, correct = 0, streak = 0\<rparr>"
    by (simp_all add: quizTerminal_def samplePending_def initialTerminal_def)
  have p1: "pendingState ?s1 = Some (samplePending\<lparr>attempts := 1\<rparr>)"
    "attempts (samplePending\<lparr>attempts := 1\<rparr>) = 1"
    "sessionStats ?s1 = \<lparr>answered = 3, correct = 3, streak = 3\<rparr>"
    by simp_all
  from wrong_answer_retry_then_fail
         [of quizTerminal samplePending asciiRuntime "ascii ''udp''" sampleChance] n a d p0
  have r0: "pendingState (handleQuizAnswer asciiRuntime sampleChance (ascii ''udp'') quizTerminal) =
              Some (samplePending\<lparr>attempts := 1\<rparr>)"
    "sessionStats (handleQuizAnswer asciiRuntime sampleChance (ascii ''udp'') quizTerminal) =
       \<lparr>answered = 0, correct = 0, streak = 0\<rparr>"
    by simp_all
  from wrong_answer_retry_then_fail
         [of ?s1 "samplePending\<lparr>attempts := 1\<rparr>" asciiRuntime "ascii ''udp''" sampleChance,
          OF p1(1)] n a d p1(2,3)
  have r1: "pendingState (handleQuizAnswer asciiRuntime sampleChance (ascii ''udp'') ?s1) = None"
    "sessionStats (handleQuizAnswer asciiRuntime sampleChance (ascii ''udp'') ?s1) =
       \<lparr>answered = 4, correct = 3, streak = 0\<rparr>"
    by (simp_all add: sessionStats.equality)
  from n a d r0 r1 show ?thesis
    by simp
qed

section \<open>The quiz: hints\<close>

text \<open>
  C4. While a quiz is pending, the first request for a hint (either token) shows the first
  \<open>ceil(length / 2)\<close> code units of the answer followed by three dots and sets
  \<open>revealedHint\<close>, the question and the attempts staying as they are. A request when the
  hint has been revealed shows a fixed warning, which holds no text of the answer, and
  changes neither the pending question, its attempts and flag, nor the statistics.
\<close>

theorem hint_once:
  assumes "pendingState s = Some p"
    and "toLowerCase R (trim v) = ascii ''hint'' \<or> toLowerCase R (trim v) = ascii ''pista''"
  shows "(\<not> revealedHint p \<longrightarrow>
            pendingState (handleQuizAnswer R ch v s) = Some (p\<lparr>revealedHint := True\<rparr>) \<and>
            sessionStats (handleQuizAnswer R ch v s) = sessionStats s \<and>
            history (handleQuizAnswer R ch v s) =
              history s @
              [\<lparr>entry_id = replyId ch, role = Assistant,
                content =
                  [ascii ''Pista: '' @
                   take (nat \<lceil>(of_nat (length (answer (question p))) :: rat) / 2\<rceil>)
                     (answer (question p)) @
                   ascii ''...'']\<rparr>]) \<and>
         (revealedHint p \<longrightarrow>
            pendingState (handleQuizAnswer R ch v s) = Some p \<and>
            sessionStats (handleQuizAnswer R ch v s) = sessionStats s \<and>
            history (handleQuizAnswer R ch v s) =
              history s @
              [\<lparr>entry_id = replyId ch, role = Assistant,
                content =
                  [[0x26A0, 0xFE0F] @ ascii '' Ya mostr'' @ [0xE9] @
                     ascii '' una pista para esta pregunta. Intenta una respuesta.'']\<rparr>])"
  using assms by (auto simp add: handleQuizAnswer_def Let_def hintText_def Math_ceil_half_def)

theorem hint_once_witness:
  "toLowerCase asciiRuntime (trim (ascii ''Hint '')) = ascii ''hint'' \<and>
   pendingState (handleQuizAnswer asciiRuntime sampleChance (ascii ''Hint '') quizTerminal) =
     Some (samplePending\<lparr>revealedHint := True\<rparr>) \<and>
   content (last (history (handleQuizAnswer asciiRuntime sampleChance (ascii ''Hint '') quizTerminal))) =
     [ascii ''Pista: TC...''] \<and>
   pendingState
     (handleQuizAnswer asciiRuntime sampleChance (ascii ''Hint '')
        (quizTerminal\<lparr>pendingState := Some (samplePending\<lparr>revealedHint := True\<rparr>)\<rparr>)) =
     Some (samplePending\<lparr>revealedHint := True\<rparr>)"
proof -
  let ?s1 = "quizTerminal\<lparr>pendingState := Some (samplePending\<lparr>revealedHint := True\<rparr>)\<rparr>"
  have n: "toLowerCase asciiRuntime (trim (ascii ''Hint '')) = ascii ''hint''"
    by (simp add: string_eval)
  have p0: "pendingState quizTerminal = Some samplePending" "\<not> revealedHint samplePending"
    by (simp_all add: quizTerminal_def samplePending_def)
  have p1: "pendingState ?s1 = Some (samplePending\<lparr>revealedHint := True\<rparr>)"
    "revealedHint (samplePending\<lparr>revealedHint := True\<rparr>)"
    by simp_all
  have h: "ascii ''Pista: '' @
           take (nat \<lceil>(of_nat (length (answer (question samplePending))) :: rat) / 2\<rceil>)
             (answer (question samplePending)) @ ascii ''...'' = ascii ''Pista: TC...''"
    unfolding ceil_half_nat by (simp add: samplePending_def sampleQuestion_def ascii_def)
  from hint_once [of quizTerminal samplePending asciiRuntime "ascii ''Hint ''" sampleChance] n p0
  have r0: "pendingState (handleQuizAnswer asciiRuntime sampleChance (ascii ''Hint '') quizTerminal) =
              Some (samplePending\<lparr>revealedHint := True\<rparr>)"
    "content (last (history (handleQuizAnswer asciiRuntime sampleChance (ascii ''Hint '') quizTerminal))) =
       [ascii ''Pista: '' @
        take (nat \<lceil>(of_nat (length (answer (question samplePending))) :: rat) / 2\<rceil>)
          (answer (question samplePending)) @ ascii ''...'']"
    by simp_all
  from hint_once [of ?s1 "samplePending\<lparr>revealedHint := True\<rparr>" asciiRuntime "ascii ''Hint ''"
         sampleChance, OF p1(1)] n p1(2)
  have r1: "pendingState (handleQuizAnswer asciiRuntime sampleChance (ascii ''Hint '') ?s1) =
              Some (samplePending\<lparr>revealedHint := True\<rparr>)"
    by simp
  from n r0 r1 h show ?thesis
    by simp
qed

section \<open>The quiz: skipping\<close>

text \<open>
  C5. While a quiz is pending, a skip token (either one, after trimming and lower-casing)
  resolves the round at once, whatever the attempts and the hint flag are: \<open>answered\<close>
  grows by exactly one, \<open>correct\<close> is unchanged, \<open>streak\<close> becomes 0, the assistant shows
  the answer, the explanation and the status line of the updated statistics, and no
  question is pending any more.
\<close>

theorem skip_resolves:
  assumes "pendingState s = Some p"
    and "toLowerCase R (trim v) = ascii ''skip'' \<or> toLowerCase R (trim v) = ascii ''omitir''"
  shows "answered (sessionStats (handleQuizAnswer R ch v s)) = answered (sessionStats s) + 1 \<and>
         correct (sessionStats (handleQuizAnswer R ch v s)) = correct (sessionStats s) \<and>
         streak (sessionStats (handleQuizAnswer R ch v s)) = 0 \<and>
         pendingState (handleQuizAnswer R ch v s) = None \<and>
         history (handleQuizAnswer R ch v s) =
           history s @
           [\<lparr>entry_id = replyId ch, role = Assistant,
             content =
               [ascii ''Pregunta omitida. Respuesta correcta: '' @ answer (question p),
                ascii ''Explicaci'' @ [0xF3] @ ascii ''n: '' @ explanation (question p),
                buildSessionStatus (sessionStats (handleQuizAnswer R ch v s))]\<rparr>]"
proof -
  have "ascii ''skip'' \<noteq> ascii ''hint''" "ascii ''skip'' \<noteq> ascii ''pista''"
    "ascii ''omitir'' \<noteq> ascii ''hint''" "ascii ''omitir'' \<noteq> ascii ''pista''"
    by (simp_all add: ascii_def)
  with assms show ?thesis
    by (auto simp add: handleQuizAnswer_def Let_def)
qed

theorem skip_resolves_witness:
  "toLowerCase asciiRuntime (trim (ascii ''SKIP'')) = ascii ''skip'' \<and>
   sessionStats
     (handleQuizAnswer asciiRuntime sampleChance (ascii ''SKIP'')
        (quizTerminal\<lparr>sessionStats := \<lparr>answered = 3, correct = 2, streak = 2\<rparr>\<rparr>)) =
     \<lparr>answered = 4, correct = 2, streak = 0\<rparr> \<and>
   pendingState
     (handleQuizAnswer asciiRuntime sampleChance (ascii ''SKIP'')
        (quizTerminal\<lparr>sessionStats := \<lparr>answered = 3, correct = 2, streak = 2\<rparr>\<rparr>)) = None"
proof -
  let ?s = "quizTerminal\<lparr>sessionStats := \<lparr>answered = 3, correct = 2, streak = 2\<rparr>\<rparr>"
  have n: "toLowerCase asciiRuntime (trim (ascii ''SKIP'')) = ascii ''skip''"
    by (simp add: string_eval)
  have p: "pendingState ?s = Some samplePending"
    by (simp add: quizTerminal_def)
  from skip_resolves [of ?s samplePending asciiRuntime "ascii ''SKIP''" sampleChance, OF p] n
  have "sessionStats (handleQuizAnswer asciiRuntime sampleChance (ascii ''SKIP'') ?s) =
          \<lparr>answered = 4, correct = 2, streak = 0\<rparr>"
    "pendingState (handleQuizAnswer asciiRuntime sampleChance (ascii ''SKIP'') ?s) = None"
    by (simp_all add: sessionStats.equality)
  with n show ?thesis
    by simp
qed

section \<open>The statistics of a session\<close>

text \<open>
  C6. From the initial statistics, after every sequence of submitted lines, \<open>correct\<close> is
  at most \<open>answered\<close>. Across one submission, from any state, \<open>answered\<close> and \<open>correct\<close> do
  not decrease, and \<open>streak\<close> grows by exactly one, stays, or is reset to 0.
\<close>

theorem stats_invariants:
  "correct (sessionStats (run K R initialTerminal evs)) \<le> answered (sessionStats (run K R initialTerminal evs)) \<and>
   answered (sessionStats s) \<le> answered (sessionStats (submitLine K R ev s)) \<and>
   correct (sessionStats s) \<le> correct (sessionStats (submitLine K R ev s)) \<and>
   (streak (sessionStats (submitLine K R ev s)) = streak (sessionStats s) + 1 \<or>
    streak (sessionStats (submitLine K R ev s)) = streak (sessionStats s) \<or>
    streak (sessionStats (submitLine K R ev s)) = 0)"
proof -
  have "correct (sessionStats initialTerminal) \<le> answered (sessionStats initialTerminal)"
    by (simp add: initialTerminal_def)
  then have "correct (sessionStats (run K R initialTerminal evs)) \<le> answered (sessionStats (run K R initialTerminal evs))"
    by (rule run_correct_le)
  moreover have "answered (sessionStats s) \<le> answered (sessionStats (submitLine K R ev s))"
    using submitLine_stats_cases [of K R ev s] by auto
  moreover have "correct (sessionStats s) \<le> correct (sessionStats (submitLine K R ev s))"
    using submitLine_stats_cases [of K R ev s] by auto
  moreover have "streak (sessionStats (submitLine K R ev s)) = streak (sessionStats s) + 1 \<or>
    streak (sessionStats (submitLine K R ev s)) = streak (sessionStats s) \<or>
    streak (sessionStats (submitLine K R ev s)) = 0"
    using submitLine_stats_cases [of K R ev s] by auto
  ultimately show ?thesis by blast
qed

theorem stats_invariants_witness:
  "sessionStats
     (run sampleKnowledge asciiRuntime initialTerminal
        [(ascii ''quiz redes'', sampleChance), (ascii '' tcp '', sampleChance)]) =
     \<lparr>answered = 1, correct = 1, streak = 1\<rparr> \<and>
   sessionStats
     (run sampleKnowledge asciiRuntime initialTerminal
        [(ascii ''quiz redes'', sampleChance), (ascii '' tcp '', sampleChance),
         (ascii ''reto'', sampleChance), (ascii ''udp'', sampleChance),
         (ascii ''udp'', sampleChance)]) =
     \<lparr>answered = 2, correct = 1, streak = 0\<rparr> \<and>
   correct
     (sessionStats
        (run sampleKnowledge asciiRuntime initialTerminal
           [(ascii ''quiz redes'', sampleChance), (ascii '' tcp '', sampleChance),
            (ascii ''reto'', sampleChance), (ascii ''udp'', sampleChance),
            (ascii ''udp'', sampleChance)])) \<le>
   answered
     (sessionStats
        (run sampleKnowledge asciiRuntime initialTerminal
           [(ascii ''quiz redes'', sampleChance), (ascii '' tcp '', sampleChance),
            (ascii ''reto'', sampleChance), (ascii ''udp'', sampleChance),
            (ascii ''udp'', sampleChance)]))"
proof -
  let ?evs = "[(ascii ''quiz redes'', sampleChance), (ascii '' tcp '', sampleChance),
               (ascii ''reto'', sampleChance), (ascii ''udp'', sampleChance),
               (ascii ''udp'', sampleChance)]"
  have 1: "sessionStats
             (run sampleKnowledge asciiRuntime initialTerminal
                [(ascii ''quiz redes'', sampleChance), (ascii '' tcp '', sampleChance)]) =
           \<lparr>answered = 1, correct = 1, streak = 1\<rparr>"
    by (simp add: session_eval)
  have 2: "sessionStats (run sampleKnowledge asciiRuntime initialTerminal ?evs) =
             \<lparr>answered = 2, correct = 1, streak = 0\<rparr>"
    by (simp add: session_eval)
  from stats_invariants [of sampleKnowledge asciiRuntime ?evs]
  have "correct (sessionStats (run sampleKnowledge asciiRuntime initialTerminal ?evs)) \<le>
        answered (sessionStats (run sampleKnowledge asciiRuntime initialTerminal ?evs))"
    by blast
  with 1 2 show ?thesis
    by blast
qed

section \<open>The parser\<close>

text \<open>
  C7, as the code has it. The line is trimmed. If nothing is left, submitting it changes
  nothing: no entry, no dispatch. Otherwise the trimmed line is cut at its first space
  (U+0020): the text before it, in lower case, is the command key, and the text from
  it on, trimmed, in its own case, is the argument string. When the space is the only
  whitespace inside the line, this is the split at the first run of whitespace. Other
  whitespace does not separate the command from its argument: in the counterexample a
  tab stands between \<open>lesson\<close> and \<open>redes\<close>, the whole line is the command key and the
  argument string is empty, where the first run of whitespace would give \<open>lesson\<close> and
  \<open>redes\<close>.
\<close>

theorem parseCommand_first_space:
  "parseCommand R rawInput =
     (if trim rawInput = [] then None
      else Some (toLowerCase R (takeWhile (\<lambda>c. c \<noteq> 0x20) (trim rawInput)),
                 trim (dropWhile (\<lambda>c. c \<noteq> 0x20) (trim rawInput)))) \<and>
   ((\<forall>c\<in>set (trim rawInput). isWhiteSpace c \<longrightarrow> c = 0x20) \<longrightarrow>
      parseCommand R rawInput = parseBySpec R rawInput) \<and>
   handleCommand K R ch rawInput s =
     (case parseCommand R rawInput of
        None \<Rightarrow> s
      | Some (commandKey, argString) \<Rightarrow> handleCommand_switch K R ch commandKey argString s) \<and>
   (trim (inputValue s) = [] \<longrightarrow> handleSubmit K R ch s = s)"
  using parseCommand_eq [of R rawInput] parse_agree [of rawInput R]
  by (simp add: handleCommand_def handleSubmit_empty)

theorem parseCommand_first_space_witness:
  "parseCommand asciiRuntime (ascii '' Lesson  Redes y mas '') =
     Some (ascii ''lesson'', ascii ''Redes y mas'') \<and>
   parseBySpec asciiRuntime (ascii '' Lesson  Redes y mas '') =
     Some (ascii ''lesson'', ascii ''Redes y mas'') \<and>
   trim (inputValue (quizTerminal\<lparr>inputValue := ascii ''   ''\<rparr>)) = [] \<and>
   handleSubmit sampleKnowledge asciiRuntime sampleChance (quizTerminal\<lparr>inputValue := ascii ''   ''\<rparr>) =
     quizTerminal\<lparr>inputValue := ascii ''   ''\<rparr>"
proof -
  let ?s = "quizTerminal\<lparr>inputValue := ascii ''   ''\<rparr>"
  have e: "trim (inputValue ?s) = []"
    by (simp add: string_eval)
  have t: "trim (ascii '' Lesson  Redes y mas '') = ascii ''Lesson  Redes y mas''"
    by (simp add: string_eval)
  have w: "\<forall>c\<in>set (ascii ''Lesson  Redes y mas''). isWhiteSpace c \<longrightarrow> c = 0x20"
    by (simp add: ascii_def isWhiteSpace_def)
  have k: "toLowerCase asciiRuntime (takeWhile (\<lambda>c. c \<noteq> 0x20) (ascii ''Lesson  Redes y mas'')) =
             ascii ''lesson''"
    "trim (dropWhile (\<lambda>c. c \<noteq> 0x20) (ascii ''Lesson  Redes y mas'')) = ascii ''Redes y mas''"
    "ascii ''Lesson  Redes y mas'' \<noteq> []"
    by (simp_all add: string_eval)
  note inst = parseCommand_first_space
         [of asciiRuntime "ascii '' Lesson  Redes y mas ''" sampleKnowledge sampleChance ?s]
  from inst have "parseCommand asciiRuntime (ascii '' Lesson  Redes y mas '') =
     (if trim (ascii '' Lesson  Redes y mas '') = [] then None
      else Some (toLowerCase asciiRuntime
                   (takeWhile (\<lambda>c. c \<noteq> 0x20) (trim (ascii '' Lesson  Redes y mas ''))),
                 trim (dropWhile (\<lambda>c. c \<noteq> 0x20) (trim (ascii '' Lesson  Redes y mas '')))))"
    by blast
  then have 1: "parseCommand asciiRuntime (ascii '' Lesson  Redes y mas '') =
                  Some (ascii ''lesson'', ascii ''Redes y mas'')"
    unfolding t using k by simp
  from inst w have "parseCommand asciiRuntime (ascii '' Lesson  Redes y mas '') =
                    parseBySpec asciiRuntime (ascii '' Lesson  Redes y mas '')"
    unfolding t by blast
  with 1 have 2: "parseBySpec asciiRuntime (ascii '' Lesson  Redes y mas '') =
                    Some (ascii ''lesson'', ascii ''Redes y mas'')"
    by simp
  from inst e have 3: "handleSubmit sampleKnowledge asciiRuntime sampleChance ?s = ?s"
    by blast
  from 1 2 3 e show ?thesis
    by blast
qed

theorem parse_tab_counterexample:
  "parseCommand asciiRuntime (ascii ''lesson'' @ [0x9] @ ascii ''redes'') =
     Some (ascii ''lesson'' @ [0x9] @ ascii ''redes'', []) \<and>
   parseBySpec asciiRuntime (ascii ''lesson'' @ [0x9] @ ascii ''redes'') =
     Some (ascii ''lesson'', ascii ''redes'')"
  by (simp add: parseCommand_def parseBySpec_def normalizeInput_def string_eval)

section \<open>The status line\<close>

text \<open>
  C8, as the code has it. The status line shows \<open>answered\<close>, \<open>correct\<close>, the accuracy
  followed by a percent sign and \<open>streak\<close>, in this order, and the command \<open>status\<close> with
  \<open>answered = 0\<close> reports an accuracy of \<open>0%\<close>. The accuracy is 0 when \<open>answered\<close> is 0
  and otherwise \<open>Math.round\<close> of \<open>correct / answered * 100\<close> as binary64 computes it: the
  quotient is rounded to a double, its product with 100 is rounded to a double, each
  with a relative error of at most \<open>2^-53\<close>, and the accuracy is the floor of that
  product plus one half. For fewer than \<open>2^43\<close> answered questions, of which at most
  all are correct, and so after every session of fewer than \<open>2^43\<close> lines, this is the
  exact percentage rounded to the nearest integer, unless the exact percentage is
  halfway between two integers: there the accuracy is the upper or the lower of the
  two. In the counterexample 23 of 40 are correct: the exact percentage 57.5 rounds to
  58, the code shows 57.
\<close>

theorem status_line_accuracy:
  "buildSessionStatus st =
     [0xD83D, 0xDCCA] @ ascii '' Sesi'' @ [0xF3] @ ascii ''n | Resueltas: '' @
     numberToString (answered st) @ ascii '' | Correctas: '' @ numberToString (correct st) @
     ascii '' | Precisi'' @ [0xF3] @ ascii ''n: '' @ numberToString (accuracyOf st) @
     ascii ''% | Racha: '' @ numberToString (streak st) \<and>
   (answered st = 0 \<longrightarrow> accuracyOf st = 0) \<and>
   (0 < answered st \<longrightarrow>
      accuracyOf st =
        nat \<lfloor>valueOf (js_times (js_divide (correct st) (answered st)) 100) + 1 / 2\<rfloor>) \<and>
   (0 < answered st \<longrightarrow> 0 < correct st \<longrightarrow>
      \<bar>valueOf (js_divide (correct st) (answered st)) -
         of_nat (correct st) / of_nat (answered st)\<bar>
        \<le> valueOf (js_divide (correct st) (answered st)) / 2 ^ 53 \<and>
      \<bar>valueOf (js_times (js_divide (correct st) (answered st)) 100) -
         valueOf (js_divide (correct st) (answered st)) * 100\<bar>
        \<le> valueOf (js_times (js_divide (correct st) (answered st)) 100) / 2 ^ 53) \<and>
   (0 < answered st \<longrightarrow> answered st < 2 ^ 43 \<longrightarrow> correct st \<le> answered st \<longrightarrow>
      accuracyOf st = accuracyBySpec st \<or>
      (halfway st \<and> accuracyOf st + 1 = accuracyBySpec st)) \<and>
   (length evs < 2 ^ 43 \<longrightarrow>
      accuracyOf (sessionStats (run K R initialTerminal evs)) =
        accuracyBySpec (sessionStats (run K R initialTerminal evs)) \<or>
      (halfway (sessionStats (run K R initialTerminal evs)) \<and>
       accuracyOf (sessionStats (run K R initialTerminal evs)) + 1 =
         accuracyBySpec (sessionStats (run K R initialTerminal evs)))) \<and>
   (pendingState s = None \<longrightarrow> parseCommand R (inputValue s) = Some (ascii ''status'', a) \<longrightarrow>
      answered (sessionStats s) = 0 \<longrightarrow>
      content (last (history (handleSubmit K R ch s))) =
        [[0xD83D, 0xDCCA] @ ascii '' Sesi'' @ [0xF3] @ ascii ''n | Resueltas: 0 | Correctas: '' @
           numberToString (correct (sessionStats s)) @ ascii '' | Precisi'' @ [0xF3] @
           ascii ''n: 0% | Racha: '' @ numberToString (streak (sessionStats s)),
         [0xD83D, 0xDCA1] @ ascii '' '' @ pickLine ch (motivationalTips K)])"
proof -
  have status: "content (last (history (handleSubmit K R ch s))) =
        [[0xD83D, 0xDCCA] @ ascii '' Sesi'' @ [0xF3] @ ascii ''n | Resueltas: 0 | Correctas: '' @
           numberToString (correct (sessionStats s)) @ ascii '' | Precisi'' @ [0xF3] @
           ascii ''n: 0% | Racha: '' @ numberToString (streak (sessionStats s)),
         [0xD83D, 0xDCA1] @ ascii '' '' @ pickLine ch (motivationalTips K)]"
    if "pendingState s = None" "parseCommand R (inputValue s) = Some (ascii ''status'', a)"
      "answered (sessionStats s) = 0"
  proof -
    have "buildSessionStatus (sessionStats s) =
            [0xD83D, 0xDCCA] @ ascii '' Sesi'' @ [0xF3] @ ascii ''n | Resueltas: 0 | Correctas: '' @
            numberToString (correct (sessionStats s)) @ ascii '' | Precisi'' @ [0xF3] @
            ascii ''n: 0% | Racha: '' @ numberToString (streak (sessionStats s))"
      using that(3) by (simp add: buildSessionStatus_def accuracyOf_def numberToString_0 ascii_def)
    with that(1,2) show ?thesis
      by (simp add: handleSubmit_idle switch_status)
  qed
  have render: "buildSessionStatus st =
     [0xD83D, 0xDCCA] @ ascii '' Sesi'' @ [0xF3] @ ascii ''n | Resueltas: '' @
     numberToString (answered st) @ ascii '' | Correctas: '' @ numberToString (correct st) @
     ascii '' | Precisi'' @ [0xF3] @ ascii ''n: '' @ numberToString (accuracyOf st) @
     ascii ''% | Racha: '' @ numberToString (streak st)"
    by (simp add: buildSessionStatus_def)
  have zero: "answered st = 0 \<longrightarrow> accuracyOf st = 0"
    by (simp add: accuracyOf_def)
  have formula: "0 < answered st \<longrightarrow>
      accuracyOf st =
        nat \<lfloor>valueOf (js_times (js_divide (correct st) (answered st)) 100) + 1 / 2\<rfloor>"
    by (simp add: accuracyOf_def Math_round_value)
  have bounds: "\<bar>valueOf (js_divide (correct st) (answered st)) -
         of_nat (correct st) / of_nat (answered st)\<bar>
        \<le> valueOf (js_divide (correct st) (answered st)) / 2 ^ 53 \<and>
      \<bar>valueOf (js_times (js_divide (correct st) (answered st)) 100) -
         valueOf (js_divide (correct st) (answered st)) * 100\<bar>
        \<le> valueOf (js_times (js_divide (correct st) (answered st)) 100) / 2 ^ 53"
    if "0 < answered st" "0 < correct st"
  proof -
    have d: "\<bar>valueOf (js_divide (correct st) (answered st)) -
               of_nat (correct st) / of_nat (answered st)\<bar>
             \<le> valueOf (js_divide (correct st) (answered st)) / 2 ^ 53"
      unfolding js_divide_def by (rule toDouble_relative [OF that(2) that(1)])
    have pos: "0 < valueOf (js_divide (correct st) (answered st))"
      unfolding js_divide_def by (rule toDouble_positive [OF that(2) that(1)])
    have "\<bar>valueOf (js_times (js_divide (correct st) (answered st)) 100) -
            valueOf (js_divide (correct st) (answered st)) * of_nat 100\<bar>
          \<le> valueOf (js_times (js_divide (correct st) (answered st)) 100) / 2 ^ 53"
      by (rule js_times_value [OF pos]) simp
    with d show ?thesis by simp
  qed
  from render zero formula bounds accuracy_spec_or_tie [of st]
    session_accuracy_spec_or_tie [of evs K R] status
  show ?thesis by blast
qed

theorem status_line_accuracy_witness:
  "pendingState (initialTerminal\<lparr>inputValue := ascii ''status''\<rparr>) = None \<and>
   parseCommand asciiRuntime (inputValue (initialTerminal\<lparr>inputValue := ascii ''status''\<rparr>)) =
     Some (ascii ''status'', []) \<and>
   answered (sessionStats (initialTerminal\<lparr>inputValue := ascii ''status''\<rparr>)) = 0 \<and>
   content
     (last (history (handleSubmit sampleKnowledge asciiRuntime sampleChance
                       (initialTerminal\<lparr>inputValue := ascii ''status''\<rparr>)))) =
     [[0xD83D, 0xDCCA] @ ascii '' Sesi'' @ [0xF3] @
        ascii ''n | Resueltas: 0 | Correctas: 0 | Precisi'' @ [0xF3] @ ascii ''n: 0% | Racha: 0'',
      [0xD83D, 0xDCA1] @ ascii '' Sigue''] \<and>
   accuracyOf \<lparr>answered = 0, correct = 0, streak = 0\<rparr> = 0 \<and>
   buildSessionStatus \<lparr>answered = 200, correct = 29, streak = 0\<rparr> =
     [0xD83D, 0xDCCA] @ ascii '' Sesi'' @ [0xF3] @
       ascii ''n | Resueltas: 200 | Correctas: 29 | Precisi'' @ [0xF3] @ ascii ''n: 14% | Racha: 0'' \<and>
   accuracyOf \<lparr>answered = 200, correct = 29, streak = 0\<rparr> =
     nat \<lfloor>valueOf (js_times (js_divide 29 200) 100) + 1 / 2\<rfloor> \<and>
   \<bar>valueOf (js_divide 29 200) - 29 / 200\<bar> \<le> valueOf (js_divide 29 200) / 2 ^ 53 \<and>
   \<bar>valueOf (js_times (js_divide 29 200) 100) - valueOf (js_divide 29 200) * 100\<bar>
     \<le> valueOf (js_times (js_divide 29 200) 100) / 2 ^ 53 \<and>
   halfway \<lparr>answered = 200, correct = 29, streak = 0\<rparr> \<and>
   accuracyOf \<lparr>answered = 200, correct = 29, streak = 0\<rparr> + 1 =
     accuracyBySpec \<lparr>answered = 200, correct = 29, streak = 0\<rparr> \<and>
   accuracyOf
     (sessionStats
        (run sampleKnowledge asciiRuntime initialTerminal
           [(ascii ''quiz redes'', sampleChance), (ascii '' tcp '', sampleChance)])) =
   accuracyBySpec
     (sessionStats
        (run sampleKnowledge asciiRuntime initialTerminal
           [(ascii ''quiz redes'', sampleChance), (ascii '' tcp '', sampleChance)]))"
proof -
  let ?s = "initialTerminal\<lparr>inputValue := ascii ''status''\<rparr>"
  let ?st = "\<lparr>answered = 200, correct = 29, streak = 0\<rparr>"
  let ?z = "\<lparr>answered = 0, correct = 0, streak = 0\<rparr>"
  let ?evs = "[(ascii ''quiz redes'', sampleChance), (ascii '' tcp '', sampleChance)]"
  have p: "pendingState ?s = None" "answered (sessionStats ?s) = 0"
    "correct (sessionStats ?s) = 0" "streak (sessionStats ?s) = 0"
    by (simp_all add: initialTerminal_def)
  have c: "parseCommand asciiRuntime (inputValue ?s) = Some (ascii ''status'', [])"
    by (simp add: parseCommand_def normalizeInput_def string_eval)
  have t: "pickLine sampleChance (motivationalTips sampleKnowledge) = ascii ''Sigue''"
    by (simp add: pickLine_def sampleKnowledge_def randomIndex_def sampleChance_def)
  have a: "accuracyOf ?st = 14"
    by (simp add: float_eval)
  have b: "accuracyBySpec ?st = 15"
    by (simp add: accuracyBySpec_def)
  have n: "numberToString 200 = ascii ''200''" "numberToString 29 = ascii ''29''"
    "numberToString 14 = ascii ''14''"
    by (simp_all add: numberToString.simps ascii_def)
  have h: "0 < answered ?st" "answered ?st < 2 ^ 43" "correct ?st \<le> answered ?st"
    "0 < correct ?st" "answered ?z = 0"
    by simp_all
  have l: "length ?evs < 2 ^ 43"
    by simp
  have r: "sessionStats (run sampleKnowledge asciiRuntime initialTerminal ?evs) =
             \<lparr>answered = 1, correct = 1, streak = 1\<rparr>"
    by (simp add: session_eval)
  have nh: "\<not> halfway \<lparr>answered = 1, correct = 1, streak = 1\<rparr>"
    by (simp add: halfway_def)
  note inst = status_line_accuracy [of ?st ?evs sampleKnowledge asciiRuntime ?s "[]" sampleChance]
  note inst0 = status_line_accuracy [of ?z ?evs sampleKnowledge asciiRuntime ?s "[]" sampleChance]
  from inst p c t
  have 1: "content (last (history (handleSubmit sampleKnowledge asciiRuntime sampleChance ?s))) =
     [[0xD83D, 0xDCCA] @ ascii '' Sesi'' @ [0xF3] @
        ascii ''n | Resueltas: 0 | Correctas: 0 | Precisi'' @ [0xF3] @ ascii ''n: 0% | Racha: 0'',
      [0xD83D, 0xDCA1] @ ascii '' Sigue'']"
    by (simp add: numberToString_0 ascii_def)
  from inst0 h(5) have 0: "accuracyOf ?z = 0"
    by blast
  from inst have "buildSessionStatus ?st =
     [0xD83D, 0xDCCA] @ ascii '' Sesi'' @ [0xF3] @ ascii ''n | Resueltas: '' @
     numberToString (answered ?st) @ ascii '' | Correctas: '' @ numberToString (correct ?st) @
     ascii '' | Precisi'' @ [0xF3] @ ascii ''n: '' @ numberToString (accuracyOf ?st) @
     ascii ''% | Racha: '' @ numberToString (streak ?st)"
    by blast
  then have 2: "buildSessionStatus ?st =
     [0xD83D, 0xDCCA] @ ascii '' Sesi'' @ [0xF3] @
       ascii ''n | Resueltas: 200 | Correctas: 29 | Precisi'' @ [0xF3] @ ascii ''n: 14% | Racha: 0''"
    unfolding a by (simp add: n numberToString_0 ascii_def)
  from inst h(1)
  have "accuracyOf ?st =
          nat \<lfloor>valueOf (js_times (js_divide (correct ?st) (answered ?st)) 100) + 1 / 2\<rfloor>"
    by blast
  then have 3: "accuracyOf ?st = nat \<lfloor>valueOf (js_times (js_divide 29 200) 100) + 1 / 2\<rfloor>"
    by simp
  from inst h(1,4)
  have "\<bar>valueOf (js_divide (correct ?st) (answered ?st)) -
           of_nat (correct ?st) / of_nat (answered ?st)\<bar>
          \<le> valueOf (js_divide (correct ?st) (answered ?st)) / 2 ^ 53 \<and>
        \<bar>valueOf (js_times (js_divide (correct ?st) (answered ?st)) 100) -
           valueOf (js_divide (correct ?st) (answered ?st)) * 100\<bar>
          \<le> valueOf (js_times (js_divide (correct ?st) (answered ?st)) 100) / 2 ^ 53"
    by blast
  then have 4: "\<bar>valueOf (js_divide 29 200) - 29 / 200\<bar> \<le> valueOf (js_divide 29 200) / 2 ^ 53"
    "\<bar>valueOf (js_times (js_divide 29 200) 100) - valueOf (js_divide 29 200) * 100\<bar>
       \<le> valueOf (js_times (js_divide 29 200) 100) / 2 ^ 53"
    by simp_all
  from inst h(1,2,3)
  have "accuracyOf ?st = accuracyBySpec ?st \<or>
        (halfway ?st \<and> accuracyOf ?st + 1 = accuracyBySpec ?st)"
    by blast
  with a b have 5: "halfway ?st" "accuracyOf ?st + 1 = accuracyBySpec ?st"
    by simp_all
  from inst l
  have "accuracyOf (sessionStats (run sampleKnowledge asciiRuntime initialTerminal ?evs)) =
          accuracyBySpec (sessionStats (run sampleKnowledge asciiRuntime initialTerminal ?evs)) \<or>
        (halfway (sessionStats (run sampleKnowledge asciiRuntime initialTerminal ?evs)) \<and>
         accuracyOf (sessionStats (run sampleKnowledge asciiRuntime initialTerminal ?evs)) + 1 =
           accuracyBySpec (sessionStats (run sampleKnowledge asciiRuntime initialTerminal ?evs)))"
    by blast
  with nh have 6: "accuracyOf (sessionStats (run sampleKnowledge asciiRuntime initialTerminal ?evs)) =
          accuracyBySpec (sessionStats (run sampleKnowledge asciiRuntime initialTerminal ?evs))"
    unfolding r by blast
  from p c 0 1 2 3 4 5 6 show ?thesis
    by blast
qed

theorem accuracy_tie_counterexample:
  "accuracyOf \<lparr>answered = 40, correct = 23, streak = 0\<rparr> = 57 \<and>
   accuracyBySpec \<lparr>answered = 40, correct = 23, streak = 0\<rparr> = 58 \<and>
   buildSessionStatus \<lparr>answered = 40, correct = 23, streak = 0\<rparr> =
     [0xD83D, 0xDCCA] @ ascii '' Sesi'' @ [0xF3] @
       ascii ''n | Resueltas: 40 | Correctas: 23 | Precisi'' @ [0xF3] @ ascii ''n: 57% | Racha: 0''"
proof -
  have a: "accuracyOf \<lparr>answered = 40, correct = 23, streak = 0\<rparr> = 57"
    by (simp add: float_eval)
  have b: "accuracyBySpec \<lparr>answered = 40, correct = 23, streak = 0\<rparr> = 58"
    by (simp add: accuracyBySpec_def)
  have n: "numberToString 40 = ascii ''40''" "numberToString 23 = ascii ''23''"
    "numberToString 57 = ascii ''57''"
    by (simp_all add: numberToString.simps ascii_def)
  have "buildSessionStatus \<lparr>answered = 40, correct = 23, streak = 0\<rparr> =
     [0xD83D, 0xDCCA] @ ascii '' Sesi'' @ [0xF3] @
       ascii ''n | Resueltas: 40 | Correctas: 23 | Precisi'' @ [0xF3] @ ascii ''n: 57% | Racha: 0''"
    by (simp add: buildSessionStatus_def a n numberToString_0) (simp add: ascii_def)
  with a b show ?thesis by simp
qed

section \<open>The recall buffer\<close>

text \<open>
  C9. After every sequence of submitted lines the recall buffer holds at most 30 lines,
  no line twice, and is ordered most recent first: it is the list of the distinct
  accepted lines by their last submission, latest first, cut at 30. Submitting a line
  that the buffer holds moves it to the front and keeps the length of the buffer.
\<close>

theorem recall_buffer_invariants:
  fixes K R evs
  defines "s \<equiv> run K R initialTerminal evs"
  shows "length (commandHistory s) \<le> 30 \<and> distinct (commandHistory s) \<and>
         commandHistory s = take 30 (rev (remdups (acceptedLines evs))) \<and>
         (trim line \<in> set (commandHistory s) \<longrightarrow>
            commandHistory (submitLine K R (line, ch) s) =
              trim line # filter (\<lambda>item. item \<noteq> trim line) (commandHistory s) \<and>
            length (commandHistory (submitLine K R (line, ch) s)) = length (commandHistory s))"
proof -
  have b: "commandHistory s = take 30 (rev (remdups (acceptedLines evs)))"
    unfolding s_def by (rule run_commandHistory)
  have d: "distinct (commandHistory s)"
    unfolding b by simp
  have l: "length (commandHistory s) \<le> 30"
    unfolding b by simp
  have m: "commandHistory (submitLine K R (line, ch) s) =
              trim line # filter (\<lambda>item. item \<noteq> trim line) (commandHistory s) \<and>
            length (commandHistory (submitLine K R (line, ch) s)) = length (commandHistory s)"
    if mem: "trim line \<in> set (commandHistory s)"
  proof -
    from mem have "trim line \<in> set (acceptedLines evs)"
      unfolding b by (auto dest: in_set_takeD)
    then have ne: "trim line \<noteq> []"
      by (auto simp: acceptedLines_def)
    from d mem have "length (filter (\<lambda>item. item \<noteq> trim line) (commandHistory s)) =
                     length (commandHistory s) - 1"
      by (rule length_filter_neq)
    moreover from mem have "0 < length (commandHistory s)"
      by (cases "commandHistory s") auto
    ultimately have len: "length (trim line # filter (\<lambda>item. item \<noteq> trim line) (commandHistory s)) =
                     length (commandHistory s)"
      by simp
    with l ne show ?thesis
      by (simp add: submitLine_commandHistory)
  qed
  from b d l m show ?thesis by blast
qed

theorem recall_buffer_invariants_witness:
  "commandHistory
     (run sampleKnowledge asciiRuntime initialTerminal
        [(ascii ''help'', sampleChance), (ascii '' topics '', sampleChance), (ascii ''  '', sampleChance),
         (ascii ''topics'', sampleChance)]) =
     [ascii ''topics'', ascii ''help''] \<and>
   commandHistory
     (submitLine sampleKnowledge asciiRuntime (ascii ''help '', sampleChance)
        (run sampleKnowledge asciiRuntime initialTerminal
           [(ascii ''help'', sampleChance), (ascii '' topics '', sampleChance), (ascii ''  '', sampleChance),
            (ascii ''topics'', sampleChance)])) =
     [ascii ''help'', ascii ''topics'']"
proof -
  let ?evs = "[(ascii ''help'', sampleChance), (ascii '' topics '', sampleChance),
               (ascii ''  '', sampleChance), (ascii ''topics'', sampleChance)]"
  have a: "take 30 (rev (remdups (acceptedLines ?evs))) = [ascii ''topics'', ascii ''help'']"
    by (simp add: acceptedLines_def normalizeInput_def string_eval)
  have t: "trim (ascii ''help '') = ascii ''help''"
    by (simp add: string_eval)
  have d: "ascii ''topics'' \<noteq> ascii ''help''"
    by (simp add: ascii_def)
  from recall_buffer_invariants [of sampleKnowledge asciiRuntime ?evs "ascii ''help ''" sampleChance]
  have b: "commandHistory (run sampleKnowledge asciiRuntime initialTerminal ?evs) =
             [ascii ''topics'', ascii ''help'']"
    unfolding a by blast
  from recall_buffer_invariants [of sampleKnowledge asciiRuntime ?evs "ascii ''help ''" sampleChance]
  have "commandHistory
          (submitLine sampleKnowledge asciiRuntime (ascii ''help '', sampleChance)
             (run sampleKnowledge asciiRuntime initialTerminal ?evs)) =
        [ascii ''help'', ascii ''topics'']"
    unfolding b t using d by simp
  with b show ?thesis
    by simp
qed

section \<open>Resources and laboratories of an unknown topic\<close>

text \<open>
  C10. For the commands \<open>resources\<close> and \<open>labs\<close> (and their synonyms), an argument that no
  topic answers to gives the same output as the command without argument: the listing
  across all topics, and no message that the topic was not found.
\<close>

theorem unresolved_topic_lists_everything:
  assumes "parseCommand R rawInput = Some (k, a)"
    and "findTopicByAlias K a = None"
    and "parseCommand R bare = Some (k, [])"
  shows "(k = ascii ''resources'' \<or> k = ascii ''recursos'' \<longrightarrow>
            handleCommand K R ch rawInput s = handleCommand K R ch bare s \<and>
            handleCommand K R ch rawInput s =
              showAssistant (formatResources K None) (replyId ch) s) \<and>
         (k = ascii ''labs'' \<or> k = ascii ''lab'' \<longrightarrow>
            handleCommand K R ch rawInput s = handleCommand K R ch bare s \<and>
            handleCommand K R ch rawInput s = showAssistant (formatLabs K None) (replyId ch) s)"
  using assms by (simp add: handleCommand_def switch_resources switch_labs)

theorem unresolved_topic_lists_everything_witness:
  "parseCommand asciiRuntime (ascii ''resources xyz'') = Some (ascii ''resources'', ascii ''xyz'') \<and>
   findTopicByAlias sampleKnowledge (ascii ''xyz'') = None \<and>
   parseCommand asciiRuntime (ascii ''Resources'') = Some (ascii ''resources'', []) \<and>
   handleCommand sampleKnowledge asciiRuntime sampleChance (ascii ''resources xyz'') initialTerminal =
     handleCommand sampleKnowledge asciiRuntime sampleChance (ascii ''Resources'') initialTerminal \<and>
   content (last (history (handleCommand sampleKnowledge asciiRuntime sampleChance
                             (ascii ''resources xyz'') initialTerminal))) =
     [[0xD83D, 0xDD17] @ ascii '' Recursos recomendados por tem'' @ [0xE1] @ ascii ''tica:'',
      ascii ''> Redes'', ascii ''  - RFC 9293: https://www.rfc-editor.org''] \<and>
   parseCommand asciiRuntime (ascii ''lab xyz'') = Some (ascii ''lab'', ascii ''xyz'') \<and>
   parseCommand asciiRuntime (ascii ''lab'') = Some (ascii ''lab'', []) \<and>
   handleCommand sampleKnowledge asciiRuntime sampleChance (ascii ''lab xyz'') initialTerminal =
     handleCommand sampleKnowledge asciiRuntime sampleChance (ascii ''lab'') initialTerminal"
proof -
  have c: "parseCommand asciiRuntime (ascii ''resources xyz'') = Some (ascii ''resources'', ascii ''xyz'')"
    "parseCommand asciiRuntime (ascii ''Resources'') = Some (ascii ''resources'', [])"
    "parseCommand asciiRuntime (ascii ''lab xyz'') = Some (ascii ''lab'', ascii ''xyz'')"
    "parseCommand asciiRuntime (ascii ''lab'') = Some (ascii ''lab'', [])"
    by (simp_all add: parseCommand_def normalizeInput_def string_eval)
  have f: "findTopicByAlias sampleKnowledge (ascii ''xyz'') = None"
    by (simp add: sampleKnowledge_def ascii_def)
  have r: "formatResources sampleKnowledge None =
     [[0xD83D, 0xDD17] @ ascii '' Recursos recomendados por tem'' @ [0xE1] @ ascii ''tica:'',
      ascii ''> Redes'', ascii ''  - RFC 9293: https://www.rfc-editor.org'']"
    by (simp add: formatResources_def sampleKnowledge_def sampleTopic_def ascii_def)
  from unresolved_topic_lists_everything
         [of asciiRuntime "ascii ''resources xyz''" "ascii ''resources''" "ascii ''xyz''"
            sampleKnowledge "ascii ''Resources''" sampleChance initialTerminal, OF c(1) f c(2)]
  have 1: "handleCommand sampleKnowledge asciiRuntime sampleChance (ascii ''resources xyz'') initialTerminal =
             handleCommand sampleKnowledge asciiRuntime sampleChance (ascii ''Resources'') initialTerminal"
    "handleCommand sampleKnowledge asciiRuntime sampleChance (ascii ''resources xyz'') initialTerminal =
       showAssistant (formatResources sampleKnowledge None) (replyId sampleChance) initialTerminal"
    by blast+
  from unresolved_topic_lists_everything
         [of asciiRuntime "ascii ''lab xyz''" "ascii ''lab''" "ascii ''xyz''"
            sampleKnowledge "ascii ''lab''" sampleChance initialTerminal, OF c(3) f c(4)]
  have 2: "handleCommand sampleKnowledge asciiRuntime sampleChance (ascii ''lab xyz'') initialTerminal =
             handleCommand sampleKnowledge asciiRuntime sampleChance (ascii ''lab'') initialTerminal"
    by blast
  from 1(2) r
  have 3: "content (last (history (handleCommand sampleKnowledge asciiRuntime sampleChance
                             (ascii ''resources xyz'') initialTerminal))) =
     [[0xD83D, 0xDD17] @ ascii '' Recursos recomendados por tem'' @ [0xE1] @ ascii ''tica:'',
      ascii ''> Redes'', ascii ''  - RFC 9293: https://www.rfc-editor.org'']"
    by simp
  from c f 1(1) 2 3 show ?thesis
    by simp
qed

end
